theory Spec2Isabelle
  imports Main "HOL-Library.Char_ord"
begin

section \<open>JavaScript values\<close>

text \<open>
  The argument bag of an activity record comes out of \<^verbatim>\<open>JSON.parse\<close>. Its values are
  modelled as the scalar JSON values; a missing key reads as \<^verbatim>\<open>undefined\<close>. Strings are
  lists of code units below 256. Numbers are the integers, printed in decimal (what
  \<^verbatim>\<open>String(n)\<close> gives below 10^21). Arrays and nested objects as argument values are not
  modelled.
\<close>

datatype jsval = JUndefined | JNull | JBool bool | JNum int | JStr string

datatype js_error = TypeError

type_synonym args = "(string \<times> jsval) list"

text \<open>\<^verbatim>\<open>args?.key\<close>: the value stored under the key, \<^verbatim>\<open>undefined\<close> when there is none.\<close>

definition get :: "args \<Rightarrow> string \<Rightarrow> jsval" where
  "get a k = (case map_of a k of None \<Rightarrow> JUndefined | Some v \<Rightarrow> v)"

fun truthy :: "jsval \<Rightarrow> bool" where
  "truthy JUndefined = False"
| "truthy JNull = False"
| "truthy (JBool b) = b"
| "truthy (JNum n) = (n \<noteq> 0)"
| "truthy (JStr s) = (s \<noteq> [])"

text \<open>\<^verbatim>\<open>a || b\<close>\<close>

definition js_or :: "jsval \<Rightarrow> jsval \<Rightarrow> jsval" where
  "js_or a b = (if truthy a then a else b)"

definition digit_char :: "nat \<Rightarrow> char" where
  "digit_char d = char_of (48 + d)"

fun show_nat :: "nat \<Rightarrow> string" where
  "show_nat n = (if n < 10 then [digit_char n] else show_nat (n div 10) @ [digit_char (n mod 10)])"

declare show_nat.simps [simp del]

definition show_int :: "int \<Rightarrow> string" where
  "show_int i = (if i < 0 then CHR ''-'' # show_nat (nat (- i)) else show_nat (nat i))"

text \<open>\<^verbatim>\<open>String(v)\<close>, the coercion applied by \<^verbatim>\<open>RegExp.prototype.test\<close> and template literals.\<close>

fun to_string :: "jsval \<Rightarrow> string" where
  "to_string JUndefined = ''undefined''"
| "to_string JNull = ''null''"
| "to_string (JBool b) = (if b then ''true'' else ''false'')"
| "to_string (JNum n) = show_int n"
| "to_string (JStr s) = s"

text \<open>\<^verbatim>\<open>s.startsWith(pre)\<close>\<close>

fun starts_with :: "string \<Rightarrow> string \<Rightarrow> bool" where
  "starts_with s [] = True"
| "starts_with [] (x # xs) = False"
| "starts_with (c # cs) (x # xs) = (c = x \<and> starts_with cs xs)"

text \<open>\<^verbatim>\<open>s.includes(sub)\<close>\<close>

fun js_includes :: "string \<Rightarrow> string \<Rightarrow> bool" where
  "js_includes [] sub = (sub = [])"
| "js_includes (c # cs) sub = (starts_with (c # cs) sub \<or> js_includes cs sub)"

section \<open>Regular expressions\<close>

text \<open>
  The fragment of JavaScript regular expressions the rule tables use: literals,
  character classes, \<^verbatim>\<open>\w \s \d \S .\<close>, sequence, alternation, \<^verbatim>\<open>? * + {n,}\<close>,
  \<^verbatim>\<open>\b ^ $\<close>, and the \<^verbatim>\<open>i\<close> flag. A match state is the code unit before the current
  position together with the rest of the input; \<open>ends\<close> returns every state in which a
  match of the expression begun in the given state can end, so that
  \<^verbatim>\<open>pattern.test(s)\<close> is: some start position has an end.
\<close>

type_synonym mstate = "char option \<times> string"

datatype atom = Lit char | Rng char char | WordChar | SpaceChar | DigitChar | NonSpace | AnyChar

datatype regex =
    Atom "atom list"
  | Lits string
  | Eps
  | Seq regex regex
  | Alt regex regex
  | Opt regex
  | Star regex
  | Plus regex
  | AtLeast nat regex
  | WordB
  | Bol
  | Eol

definition code :: "char \<Rightarrow> nat" where
  "code c = of_char c"

definition is_upper :: "char \<Rightarrow> bool" where
  "is_upper c = (65 \<le> code c \<and> code c \<le> 90)"

definition is_lower :: "char \<Rightarrow> bool" where
  "is_lower c = (97 \<le> code c \<and> code c \<le> 122)"

definition is_digit :: "char \<Rightarrow> bool" where
  "is_digit c = (48 \<le> code c \<and> code c \<le> 57)"

definition is_word :: "char \<Rightarrow> bool" where
  "is_word c = (is_lower c \<or> is_upper c \<or> is_digit c \<or> code c = 95)"

definition is_space :: "char \<Rightarrow> bool" where
  "is_space c = ((9 \<le> code c \<and> code c \<le> 13) \<or> code c = 32 \<or> code c = 160)"

definition is_line_terminator :: "char \<Rightarrow> bool" where
  "is_line_terminator c = (code c = 10 \<or> code c = 13)"

text \<open>Canonicalisation under the \<^verbatim>\<open>i\<close> flag: upper-casing, on ASCII letters.\<close>

definition canon :: "char \<Rightarrow> nat" where
  "canon c = (if is_lower c then code c - 32 else code c)"

fun atom_ok :: "bool \<Rightarrow> atom \<Rightarrow> char \<Rightarrow> bool" where
  "atom_ok ic (Lit x) c = (if ic then canon x = canon c else x = c)"
| "atom_ok ic (Rng lo hi) c =
     ((code lo \<le> code c \<and> code c \<le> code hi) \<or>
      (ic \<and> ((is_lower c \<and> code lo \<le> code c - 32 \<and> code c - 32 \<le> code hi) \<or>
              (is_upper c \<and> code lo \<le> code c + 32 \<and> code c + 32 \<le> code hi))))"
| "atom_ok ic WordChar c = is_word c"
| "atom_ok ic SpaceChar c = is_space c"
| "atom_ok ic DigitChar c = is_digit c"
| "atom_ok ic NonSpace c = (\<not> is_space c)"
| "atom_ok ic AnyChar c = (\<not> is_line_terminator c)"

fun lits_ends :: "bool \<Rightarrow> string \<Rightarrow> mstate \<Rightarrow> mstate list" where
  "lits_ends ic [] st = [st]"
| "lits_ends ic (x # xs) (p, []) = []"
| "lits_ends ic (x # xs) (p, c # cs) =
     (if atom_ok ic (Lit x) c then lits_ends ic xs (Some c, cs) else [])"

text \<open>
  Iteration for \<^verbatim>\<open>*\<close> and \<^verbatim>\<open>+\<close>: the states reachable by repeating the body. Each round
  adds the states not seen before; there are at most as many states as positions, which
  bounds the number of rounds.
\<close>

fun closure :: "nat \<Rightarrow> (mstate \<Rightarrow> mstate list) \<Rightarrow> mstate list \<Rightarrow> mstate list \<Rightarrow> mstate list" where
  "closure 0 f frontier seen = seen"
| "closure (Suc n) f frontier seen =
     (let new = filter (\<lambda>s. \<not> List.member seen s) (remdups (concat (map f frontier)))
      in if new = [] then seen else closure n f new (seen @ new))"

lemma closure_cong [fundef_cong]:
  "n = m \<Longrightarrow> (\<And>s. f s = g s) \<Longrightarrow> fr = fr' \<Longrightarrow> seen = seen' \<Longrightarrow>
   closure n f fr seen = closure m g fr' seen'"
  by (subgoal_tac "f = g") auto

fun repeat_ends :: "nat \<Rightarrow> (mstate \<Rightarrow> mstate list) \<Rightarrow> mstate list \<Rightarrow> mstate list" where
  "repeat_ends 0 f sts = sts"
| "repeat_ends (Suc n) f sts = repeat_ends n f (remdups (concat (map f sts)))"

lemma repeat_ends_cong [fundef_cong]:
  "n = m \<Longrightarrow> (\<And>s. f s = g s) \<Longrightarrow> sts = sts' \<Longrightarrow> repeat_ends n f sts = repeat_ends m g sts'"
  by (subgoal_tac "f = g") auto

fun word_before :: "char option \<Rightarrow> bool" where
  "word_before None = False"
| "word_before (Some c) = is_word c"

fun word_after :: "string \<Rightarrow> bool" where
  "word_after [] = False"
| "word_after (c # cs) = is_word c"

fun ends :: "bool \<Rightarrow> regex \<Rightarrow> mstate \<Rightarrow> mstate list" where
  "ends ic (Atom as) (p, []) = []"
| "ends ic (Atom as) (p, c # cs) =
     (if list_ex (\<lambda>a. atom_ok ic a c) as then [(Some c, cs)] else [])"
| "ends ic (Lits w) st = lits_ends ic w st"
| "ends ic Eps st = [st]"
| "ends ic (Seq r1 r2) st = remdups (concat (map (ends ic r2) (ends ic r1 st)))"
| "ends ic (Alt r1 r2) st = remdups (ends ic r1 st @ ends ic r2 st)"
| "ends ic (Opt r) st = remdups (st # ends ic r st)"
| "ends ic (Star r) st = closure (Suc (length (snd st))) (ends ic r) [st] [st]"
| "ends ic (Plus r) st =
     (let first = ends ic r st in closure (Suc (length (snd st))) (ends ic r) first first)"
| "ends ic (AtLeast n r) st =
     (let first = repeat_ends n (ends ic r) [st]
      in closure (Suc (length (snd st))) (ends ic r) first first)"
| "ends ic WordB (p, cs) = (if word_before p \<noteq> word_after cs then [(p, cs)] else [])"
| "ends ic Bol (p, cs) = (if p = None then [(p, cs)] else [])"
| "ends ic Eol (p, cs) = (if cs = [] then [(p, cs)] else [])"

fun starts :: "char option \<Rightarrow> string \<Rightarrow> mstate list" where
  "starts p [] = [(p, [])]"
| "starts p (c # cs) = (p, c # cs) # starts (Some c) cs"

text \<open>A pattern is a regular expression with its \<^verbatim>\<open>i\<close> flag.\<close>

datatype pattern = Pattern bool regex

text \<open>\<^verbatim>\<open>pattern.test(s)\<close>\<close>

fun test :: "pattern \<Rightarrow> string \<Rightarrow> bool" where
  "test (Pattern ic r) s = list_ex (\<lambda>st. ends ic r st \<noteq> []) (starts None s)"

fun seqs :: "regex list \<Rightarrow> regex" where
  "seqs [] = Eps"
| "seqs [r] = r"
| "seqs (r # rs) = Seq r (seqs rs)"

fun alts :: "regex list \<Rightarrow> regex" where
  "alts [] = Eps"
| "alts [r] = r"
| "alts (r # rs) = Alt r (alts rs)"

abbreviation ci :: "regex list \<Rightarrow> pattern" where
  "ci rs \<equiv> Pattern True (seqs rs)"

abbreviation cs :: "regex list \<Rightarrow> pattern" where
  "cs rs \<equiv> Pattern False (seqs rs)"

abbreviation sp1 :: regex where
  "sp1 \<equiv> Plus (Atom [SpaceChar])"

abbreviation sp0 :: regex where
  "sp0 \<equiv> Star (Atom [SpaceChar])"

abbreviation any0 :: regex where
  "any0 \<equiv> Star (Atom [AnyChar])"

abbreviation one_of :: "string list \<Rightarrow> regex" where
  "one_of ws \<equiv> alts (map Lits ws)"

section \<open>Risk classifier (risk-analyzer.js)\<close>

datatype RiskLevel = LOW | MEDIUM | HIGH | CRITICAL

text \<open>
  The tool categories. \<open>INHERITED\<close> stands for what the lookup \<^verbatim>\<open>categories[toolName]\<close>
  returns when the tool name is the name of a member every object inherits
  (\<^verbatim>\<open>constructor\<close>, \<^verbatim>\<open>toString\<close>, ...): that member, which is truthy and is none of the
  category strings.
\<close>

datatype ToolCategory =
  SHELL | FILE | NETWORK | MESSAGE | SYSTEM | MEMORY | BROWSER | OTHER | INHERITED string

definition categories :: "(string \<times> ToolCategory) list" where
  "categories =
    [(''exec'', SHELL), (''process'', SHELL),
     (''read'', FILE), (''write'', FILE), (''edit'', FILE),
     (''Read'', FILE), (''Write'', FILE), (''Edit'', FILE),
     (''web_fetch'', NETWORK), (''web_search'', NETWORK),
     (''browser'', BROWSER),
     (''message'', MESSAGE), (''tts'', MESSAGE),
     (''cron'', SYSTEM), (''gateway'', SYSTEM), (''sessions_spawn'', SYSTEM),
     (''sessions_send'', SYSTEM), (''sessions_list'', SYSTEM), (''sessions_history'', SYSTEM),
     (''session_status'', SYSTEM), (''agents_list'', SYSTEM), (''nodes'', SYSTEM),
     (''canvas'', SYSTEM),
     (''memory_search'', MEMORY), (''memory_get'', MEMORY)]"

definition object_prototype_members :: "string list" where
  "object_prototype_members =
    [''constructor'', ''__defineGetter__'', ''__defineSetter__'', ''hasOwnProperty'',
     ''__lookupGetter__'', ''__lookupSetter__'', ''isPrototypeOf'', ''propertyIsEnumerable'',
     ''toString'', ''valueOf'', ''__proto__'', ''toLocaleString'']"

definition categorize :: "string \<Rightarrow> ToolCategory" where
  "categorize toolName =
     (case map_of categories toolName of
        Some c \<Rightarrow> c
      | None \<Rightarrow> if List.member object_prototype_members toolName then INHERITED toolName
                else OTHER)"

definition CRITICAL_SHELL_PATTERNS :: "(pattern \<times> string) list" where
  "CRITICAL_SHELL_PATTERNS =
    [(ci [WordB, Lits ''sudo'', sp1], ''Privileged command execution''),
     (ci [WordB, Lits ''rm'', sp1, Alt (Seq (Lits ''-r'') (Opt (Lits ''f''))) (Lits ''--recursive''),
          sp1, Atom [Lit CHR ''/'', Lit CHR ''~'']],
      ''Recursive deletion of system/home paths''),
     (ci [WordB, Lits ''curl'', sp1, any0, Lits ''|'', sp0, Opt (Lits ''ba''), Lits ''sh''],
      ''Remote code execution via pipe to shell''),
     (ci [WordB, Lits ''wget'', sp1, any0, Lits ''|'', sp0, Opt (Lits ''ba''), Lits ''sh''],
      ''Remote code execution via pipe to shell''),
     (ci [WordB, Lits ''security'', sp1, Lits ''find-'', one_of [''generic'', ''internet''],
          Lits ''-password''],
      ''Keychain password extraction''),
     (ci [WordB, Lits ''security'', sp1, Lits ''dump-keychain''], ''Full keychain dump''),
     (ci [WordB, Lits ''op'', sp1, one_of [''read'', ''get'', ''item'']],
      ''1Password credential access''),
     (ci [WordB, Lits ''bw'', sp1, one_of [''get'', ''list''], sp1, one_of [''password'', ''item'']],
      ''Bitwarden credential access''),
     (ci [WordB, Lits ''dd'', sp1, Lits ''if='', any0, Lits ''of=/dev/''],
      ''Direct disk write (potential disk wipe)''),
     (ci [WordB, Lits ''mkfs'', WordB], ''Filesystem creation (destructive)''),
     (ci [Lits ''>'', sp0, Lits ''/dev/sd'', Atom [Rng CHR ''a'' CHR ''z'']],
      ''Direct write to disk device'')]"

definition HIGH_RISK_SHELL_PATTERNS :: "(pattern \<times> string) list" where
  "HIGH_RISK_SHELL_PATTERNS =
    [(ci [WordB, Lits ''rm'', sp1, Lits ''-r'', Opt (Lits ''f''), WordB], ''Recursive file deletion''),
     (ci [WordB, Lits ''chmod'', sp1, Lits ''777'', WordB], ''World-writable permissions''),
     (ci [WordB, Lits ''eval'', WordB], ''Dynamic code evaluation''),
     (ci [WordB, Lits ''killall'', WordB], ''Mass process termination''),
     (ci [WordB, Lits ''gog'', sp1, Lits ''gmail'', sp1, Lits ''send'', WordB],
      ''Sending email via Gmail''),
     (ci [WordB, Lits ''himalaya'', sp1, one_of [''send'', ''write'', ''reply'', ''forward''], WordB],
      ''Sending email via Himalaya''),
     (ci [WordB, Lits ''wacli'', sp1, Lits ''send'', WordB], ''Sending WhatsApp message''),
     (ci [WordB, Lits ''imsg'', sp1, Lits ''send'', WordB], ''Sending iMessage/SMS''),
     (ci [WordB, Lits ''bird'', sp1, one_of [''post'', ''tweet'', ''reply''], WordB],
      ''Posting to Twitter/X''),
     (ci [WordB, Lits ''aws'', sp1, one_of [''s3'', ''ec2'', ''iam'', ''lambda'', ''rds''], WordB],
      ''AWS cloud operations''),
     (ci [WordB, Lits ''gcloud'', sp1], ''Google Cloud operations''),
     (ci [WordB, Lits ''az'', sp1, one_of [''vm'', ''storage'', ''keyvault'', ''ad''], WordB],
      ''Azure cloud operations''),
     (ci [WordB, Lits ''terraform'', sp1, one_of [''apply'', ''destroy''], WordB],
      ''Infrastructure modification''),
     (ci [WordB, Lits ''kubectl'', sp1, one_of [''delete'', ''apply'', ''exec''], WordB],
      ''Kubernetes cluster operations''),
     (ci [WordB, Lits ''git'', sp1, Lits ''push'', sp1, any0, Lits ''--force'', WordB],
      ''Force push (can overwrite history)''),
     (ci [WordB, Lits ''git'', sp1, Lits ''push'', sp1, Lits ''origin'', sp1,
          one_of [''main'', ''master''], WordB],
      ''Pushing to main branch''),
     (ci [WordB, Lits ''imagesnap'', WordB], ''Camera capture''),
     (ci [WordB, Lits ''ffmpeg'', sp1, any0, Lits ''-f'', sp1, Lits ''avfoundation''],
      ''Audio/video recording''),
     (ci [WordB, Lits ''screencapture'', WordB], ''Screen capture''),
     (ci [WordB, Lits ''afrecord'', WordB], ''Audio recording''),
     (ci [WordB, Lits ''reboot'', WordB], ''System reboot''),
     (ci [WordB, Lits ''shutdown'', WordB], ''System shutdown''),
     (ci [WordB, Lits ''systemctl'', sp1, one_of [''stop'', ''disable'', ''mask''], WordB],
      ''Disabling system services''),
     (ci [WordB, Lits ''launchctl'', sp1, one_of [''unload'', ''remove''], WordB],
      ''Removing launch agents''),
     (ci [WordB, Lits ''launchctl'', sp1, Lits ''load'', WordB],
      ''Loading launch agent (persistence)''),
     (ci [WordB, Lits ''crontab'', sp1, Lits ''-'', Opt (Lits ''e''), WordB],
      ''Modifying cron jobs (persistence)''),
     (ci [Lits ''>'', sp0, Lits ''~/Library/LaunchAgents/''],
      ''Creating launch agent (persistence)''),
     (ci [WordB, Lits ''export'', sp1, Star (Atom [WordChar]),
          one_of [''_API_KEY'', ''_SECRET'', ''_TOKEN'', ''_PASSWORD''], Lits ''=''],
      ''Exporting credentials to environment''),
     (ci [WordB, Lits ''echo'', sp1, any0, WordB,
          alts [Lits ''password'', Lits ''secret'', Lits ''token'',
                seqs [Lits ''api'', Opt (Atom [AnyChar]), Lits ''key'']],
          WordB, any0, Lits ''>''],
      ''Writing credentials to file''),
     (ci [WordB, Lits ''nc'', sp1, Lits ''-l''], ''Opening network listener''),
     (ci [WordB, Lits ''netcat'', sp1, Lits ''-l''], ''Opening network listener''),
     (ci [WordB, Lits ''socat'', WordB, any0, Lits ''LISTEN''], ''Opening network listener''),
     (ci [WordB, Lits ''docker'', sp1, Lits ''run'', sp1, any0, Lits ''--privileged''],
      ''Privileged Docker container''),
     (ci [WordB, Lits ''docker'', sp1, Lits ''run'', sp1, any0, Lits ''-v'', sp1, Lits ''/:''],
      ''Docker mounting host root''),
     (ci [WordB, Lits ''docker'', sp1, Lits ''exec'', sp1, any0, Lits ''/bin/'', Opt (Lits ''ba''),
          Lits ''sh''],
      ''Docker container shell access'')]"

definition MEDIUM_RISK_SHELL_PATTERNS :: "(pattern \<times> string) list" where
  "MEDIUM_RISK_SHELL_PATTERNS =
    [(ci [WordB, Lits ''curl'', sp1, one_of [''-O'', ''--output''], WordB], ''Downloading file''),
     (ci [WordB, Lits ''wget'', WordB], ''Downloading file''),
     (ci [WordB, Lits ''ssh'', sp1, Plus (Atom [WordChar]), Lits ''@''], ''SSH connection''),
     (ci [WordB, Lits ''scp'', WordB], ''Secure copy''),
     (ci [WordB, Lits ''rsync'', WordB], ''Remote sync''),
     (ci [WordB, Lits ''chmod'', WordB], ''Changing file permissions''),
     (ci [WordB, Lits ''chown'', WordB], ''Changing file ownership''),
     (ci [WordB, Lits ''pip'', sp1, Lits ''install'', WordB], ''Python package installation''),
     (ci [WordB, Lits ''npm'', sp1, Lits ''install'', sp1, Lits ''-g'', WordB],
      ''Global npm package installation''),
     (ci [WordB, Lits ''brew'', sp1, Lits ''install'', WordB], ''Homebrew package installation''),
     (ci [WordB, Lits ''git'', sp1, Lits ''push'', WordB], ''Git push''),
     (ci [WordB, Lits ''git'', sp1, Lits ''clone'', WordB], ''Git clone''),
     (ci [WordB, Lits ''pbpaste'', WordB], ''Reading clipboard''),
     (ci [WordB, Lits ''pbcopy'', WordB], ''Writing to clipboard''),
     (ci [WordB, Lits ''kill'', sp1, Lits ''-9'', WordB], ''Force killing process''),
     (ci [WordB, Lits ''pkill'', WordB], ''Pattern-based process kill''),
     (ci [WordB, Lits ''docker'', sp1, one_of [''run'', ''build'', ''pull''], WordB],
      ''Docker operations''),
     (ci [WordB, Lits ''sqlite3'', WordB], ''SQLite database access''),
     (ci [WordB, Lits ''psql'', WordB], ''PostgreSQL access''),
     (ci [WordB, Lits ''mysql'', WordB], ''MySQL access''),
     (ci [WordB, Lits ''openssl'', WordB], ''OpenSSL operations''),
     (ci [WordB, Lits ''base64'', WordB], ''Base64 encoding/decoding''),
     (ci [WordB, Lits ''gpg'', WordB], ''GPG operations'')]"

definition SENSITIVE_PATHS :: "(pattern \<times> string) list" where
  "SENSITIVE_PATHS =
    [(ci [Lits ''.ssh/''], ''SSH keys/config''),
     (ci [Lits ''.gnupg/''], ''GPG keys''),
     (ci [Lits ''id_rsa''], ''RSA private key''),
     (ci [Lits ''id_ed25519''], ''ED25519 private key''),
     (ci [Lits ''.pem'', Eol], ''PEM certificate/key''),
     (ci [Lits ''.key'', Eol], ''Private key file''),
     (ci [Lits ''.p12'', Eol], ''PKCS12 keystore''),
     (ci [Lits ''.pfx'', Eol], ''PFX certificate''),
     (ci [Lits ''.aws/''], ''AWS credentials''),
     (ci [Lits ''.azure/''], ''Azure credentials''),
     (ci [Lits ''.kube/''], ''Kubernetes config''),
     (ci [Lits ''.docker/config.json''], ''Docker credentials''),
     (ci [Lits ''gcloud/credentials''], ''Google Cloud credentials''),
     (ci [Lits ''1password''], ''1Password data''),
     (ci [Lits ''lastpass''], ''LastPass data''),
     (ci [Lits ''bitwarden''], ''Bitwarden data''),
     (ci [Lits ''.password-store/''], ''pass password store''),
     (ci [Lits ''keychain''], ''Keychain file''),
     (ci [Lits ''.keychain-db''], ''Keychain database''),
     (ci [Lits ''.env'', Eol], ''Environment file''),
     (ci [Lits ''.env.'', Plus (Atom [Rng CHR ''a'' CHR ''z'']), Eol], ''Environment file''),
     (ci [Lits ''.netrc'', Eol], ''Netrc credentials''),
     (ci [Lits ''.npmrc'', Eol], ''NPM config (may contain tokens)''),
     (ci [Lits ''.pypirc'', Eol], ''PyPI credentials''),
     (ci [Lits ''password''], ''Password-related file''),
     (ci [Lits ''secret''], ''Secret-related file''),
     (ci [Lits ''credential''], ''Credential file''),
     (ci [Lits ''token''], ''Token file''),
     (ci [Lits ''api'', Opt (Atom [Lit CHR ''_'', Lit CHR ''-'']), Lits ''key''], ''API key file''),
     (ci [Lits ''/etc/passwd''], ''System passwd file''),
     (ci [Lits ''/etc/shadow''], ''System shadow file''),
     (ci [Lits ''/etc/sudoers''], ''Sudoers file'')]"

definition SYSTEM_PATHS :: "(pattern \<times> string) list" where
  "SYSTEM_PATHS =
    [(cs [Bol, Lits ''/etc/''], ''System configuration''),
     (cs [Bol, Lits ''/usr/''], ''System binaries''),
     (cs [Bol, Lits ''/bin/''], ''Essential binaries''),
     (cs [Bol, Lits ''/sbin/''], ''System binaries''),
     (cs [Bol, Lits ''/var/''], ''Variable data''),
     (cs [Bol, Lits ''/System/''], ''macOS System''),
     (cs [Bol, Lits ''/Library/''], ''macOS Library''),
     (cs [Bol, Lits ''/Applications/''], ''Applications folder'')]"

definition SENSITIVE_URLS :: "(pattern \<times> string) list" where
  "SENSITIVE_URLS =
    [(ci [one_of [''banking'', ''bank.'']], ''Banking website''),
     (ci [Lits ''paypal.com''], ''PayPal''),
     (ci [Lits ''stripe.com''], ''Stripe''),
     (ci [Lits ''accounts.google.com''], ''Google Account''),
     (ci [one_of [''login.'', ''signin.'', ''auth.'']], ''Authentication page''),
     (ci [Lits ''oauth''], ''OAuth flow''),
     (ci [Lits ''portal.azure.com''], ''Azure Portal''),
     (ci [Lits ''console.aws.amazon.com''], ''AWS Console''),
     (ci [Lits ''github.com/settings''], ''GitHub Settings''),
     (ci [Lits ''icloud.com''], ''iCloud'')]"

text \<open>An activity record as the classifier reads it: the tool name and the argument bag.\<close>

record call =
  tool :: string
  arguments :: args

record verdict =
  level :: RiskLevel
  category :: ToolCategory
  flags :: "string list"
  score :: nat

fun riskScore :: "RiskLevel \<Rightarrow> nat" where
  "riskScore LOW = 1"
| "riskScore MEDIUM = 2"
| "riskScore HIGH = 3"
| "riskScore CRITICAL = 4"

text \<open>
  One rule-table loop of \<^verbatim>\<open>analyzeRisk\<close>:
  \<^verbatim>\<open>for (const { pattern, desc } of TABLE) if (pattern.test(s)) { riskLevel = lv; flags.push(fmt(desc)) }\<close>
  on the pair of the current \<^verbatim>\<open>riskLevel\<close> and \<^verbatim>\<open>flags\<close>.
\<close>

fun apply_rules ::
  "RiskLevel \<Rightarrow> (string \<Rightarrow> string) \<Rightarrow> (pattern \<times> string) list \<Rightarrow> string \<Rightarrow>
   RiskLevel \<times> string list \<Rightarrow> RiskLevel \<times> string list" where
  "apply_rules lv fmt [] s st = st"
| "apply_rules lv fmt ((p, desc) # rules) s (riskLevel, fl) =
     apply_rules lv fmt rules s
       (if test p s then (lv, fl @ [fmt desc]) else (riskLevel, fl))"

text \<open>\<^verbatim>\<open>case ToolCategory.SHELL\<close>\<close>

definition shell_command :: "args \<Rightarrow> string" where
  "shell_command a = to_string (js_or (get a ''command'') (JStr []))"

definition shell_case :: "args \<Rightarrow> RiskLevel \<times> string list" where
  "shell_case a =
     (let command = shell_command a;
          st1 = apply_rules CRITICAL (\<lambda>desc. ''CRITICAL: '' @ desc) CRITICAL_SHELL_PATTERNS
                  command (LOW, []);
          st2 = (if fst st1 \<noteq> CRITICAL
                 then apply_rules HIGH (\<lambda>desc. ''HIGH: '' @ desc) HIGH_RISK_SHELL_PATTERNS
                        command st1
                 else st1);
          st3 = (if fst st2 = LOW
                 then apply_rules MEDIUM (\<lambda>desc. desc) MEDIUM_RISK_SHELL_PATTERNS command st2
                 else st2)
      in st3)"

definition secret_assignment :: pattern where
  "secret_assignment =
     ci [one_of [''_API_KEY'', ''_SECRET'', ''_TOKEN'', ''_PASSWORD''], sp0,
         Atom [Lit CHR ''='', Lit CHR '':'']]"

text \<open>
  \<^verbatim>\<open>case ToolCategory.FILE\<close>. \<open>home\<close> is \<^verbatim>\<open>process.env.HOME\<close> (\<open>None\<close> when unset, which
  \<^verbatim>\<open>includes\<close> reads as the text \<^verbatim>\<open>undefined\<close>). A truthy path that is not a string has
  no \<^verbatim>\<open>includes\<close> method: the call throws.
\<close>

definition file_case :: "string option \<Rightarrow> string \<Rightarrow> args \<Rightarrow> js_error + RiskLevel \<times> string list" where
  "file_case home tname a =
     (let path = js_or (js_or (get a ''path'') (get a ''file_path'')) (JStr []);
          content = js_or (get a ''content'') (JStr []);
          st1 = apply_rules HIGH (\<lambda>desc. ''HIGH: Sensitive file: '' @ desc) SENSITIVE_PATHS
                  (to_string path) (LOW, []);
          st2 = (if tname = ''write'' \<or> tname = ''Write'' \<or> tname = ''edit'' \<or> tname = ''Edit'' then
                   (let s1 = apply_rules HIGH (\<lambda>desc. ''HIGH: System path modification: '' @ desc)
                               SYSTEM_PATHS (to_string path) st1;
                        s2 = (if test secret_assignment (to_string content)
                              then (HIGH, snd s1 @ [''HIGH: Writing credentials to file''])
                              else s1)
                    in (case content of
                          JStr c \<Rightarrow>
                            if length c > 10000 \<and> fst s2 = LOW
                            then (MEDIUM, snd s2 @ [''Large file write: '' @ show_nat (length c) @ '' bytes''])
                            else s2
                        | _ \<Rightarrow> s2))
                 else st1)
      in if fst st2 = LOW \<and> truthy path then
           (case path of
              JStr p \<Rightarrow>
                if \<not> js_includes p (case home of Some h \<Rightarrow> h | None \<Rightarrow> ''undefined'')
                   \<and> \<not> starts_with p ''.''
                then Inr (MEDIUM, snd st2 @ [''File outside home directory''])
                else Inr st2
            | _ \<Rightarrow> Inl TypeError)
         else Inr st2)"

definition ip_literal :: pattern where
  "ip_literal =
     cs [Lits ''http'', Opt (Lits ''s''), Lits ''://'', Plus (Atom [DigitChar]), Lits ''.'',
         Plus (Atom [DigitChar]), Lits ''.'', Plus (Atom [DigitChar]), Lits ''.'',
         Plus (Atom [DigitChar])]"

text \<open>
  \<^verbatim>\<open>case ToolCategory.NETWORK\<close>. A truthy url that is not a string has no
  \<^verbatim>\<open>startsWith\<close> method: the call throws.
\<close>

definition network_case :: "args \<Rightarrow> js_error + RiskLevel \<times> string list" where
  "network_case a =
     (let url = js_or (get a ''url'') (JStr []);
          st1 = apply_rules HIGH (\<lambda>desc. ''HIGH: Sensitive site: '' @ desc) SENSITIVE_URLS
                  (to_string url) (LOW, [])
      in (case url of
            JStr u \<Rightarrow>
              (let st2 = (if starts_with u ''http://'' \<and> fst st1 = LOW
                          then (MEDIUM, snd st1 @ [''Non-HTTPS URL''])
                          else st1);
                   st3 = (if test ip_literal u
                          then (HIGH, snd st2 @ [''HIGH: Direct IP address access''])
                          else st2)
               in Inr st3)
          | _ \<Rightarrow> Inl TypeError))"

text \<open>\<^verbatim>\<open>case ToolCategory.BROWSER\<close>\<close>

definition browser_case :: "args \<Rightarrow> RiskLevel \<times> string list" where
  "browser_case a =
     (let targetUrl = js_or (js_or (get a ''url'') (get a ''targetUrl'')) (JStr []);
          st1 = apply_rules HIGH (\<lambda>desc. ''HIGH: Browser accessing: '' @ desc) SENSITIVE_URLS
                  (to_string targetUrl) (LOW, [])
      in if fst st1 = LOW then (MEDIUM, snd st1 @ [''Browser automation'']) else st1)"

text \<open>\<^verbatim>\<open>case ToolCategory.MESSAGE\<close>\<close>

definition message_case :: "args \<Rightarrow> RiskLevel \<times> string list" where
  "message_case a =
     (let target = js_or (js_or (get a ''target'') (get a ''to'')) (JStr []);
          action = js_or (get a ''action'') (JStr []);
          st1 = (if action = JStr ''send'' \<and> truthy target
                 then (HIGH, [''HIGH: Outbound message to: '' @ to_string target])
                 else (LOW, []));
          st2 = (if action = JStr ''broadcast''
                 then (HIGH, snd st1 @ [''HIGH: Broadcast message''])
                 else st1)
      in if fst st2 = LOW \<and> truthy action
         then (MEDIUM, snd st2 @ [''Message action: '' @ to_string action])
         else st2)"

text \<open>\<^verbatim>\<open>case ToolCategory.SYSTEM\<close>\<close>

definition system_case :: "string \<Rightarrow> args \<Rightarrow> RiskLevel \<times> string list" where
  "system_case tname a =
     (let action = js_or (get a ''action'') (JStr []);
          st1 = (if tname = ''gateway'' then
                   (if action = JStr ''config.apply'' \<or> action = JStr ''restart''
                       \<or> action = JStr ''update.run''
                    then (HIGH, [''HIGH: Gateway modification: '' @ to_string action])
                    else (MEDIUM, [''Gateway: '' @ to_string action]))
                 else (LOW, []));
          st2 = (if tname = ''cron'' then
                   (if action = JStr ''add'' \<or> action = JStr ''update''
                    then (HIGH, snd st1 @ [''HIGH: Scheduled task modification''])
                    else (MEDIUM, snd st1 @ [''Cron: '' @ to_string action]))
                 else st1);
          st3 = (if tname = ''sessions_spawn''
                 then (MEDIUM, snd st2 @ [''Spawning sub-agent''])
                 else st2)
      in if tname = ''nodes'' \<and>
            (action = JStr ''camera_snap'' \<or> action = JStr ''camera_clip''
             \<or> action = JStr ''screen_record'')
         then (HIGH, snd st3 @ [''HIGH: Node capture: '' @ to_string action])
         else st3)"

text \<open>
  \<^verbatim>\<open>analyzeRisk(activity)\<close>: the switch over the category, then the verdict. A category
  without a case (memory, other, an inherited member) leaves \<^verbatim>\<open>riskLevel\<close> low and
  \<^verbatim>\<open>flags\<close> empty. A \<^verbatim>\<open>TypeError\<close> thrown in a case leaves the function.
\<close>

definition analyzeRisk :: "string option \<Rightarrow> 'a call_scheme \<Rightarrow> js_error + verdict" where
  "analyzeRisk home activity =
     (let cat = categorize (tool activity);
          a = arguments activity;
          outcome =
            (case cat of
               SHELL \<Rightarrow> Inr (shell_case a)
             | FILE \<Rightarrow> file_case home (tool activity) a
             | NETWORK \<Rightarrow> network_case a
             | BROWSER \<Rightarrow> Inr (browser_case a)
             | MESSAGE \<Rightarrow> Inr (message_case a)
             | SYSTEM \<Rightarrow> Inr (system_case (tool activity) a)
             | _ \<Rightarrow> Inr (LOW, []))
      in (case outcome of
            Inl e \<Rightarrow> Inl e
          | Inr (riskLevel, fl) \<Rightarrow>
              Inr \<lparr>level = riskLevel, category = cat, flags = fl,
                   score = riskScore riskLevel\<rparr>))"

section \<open>Properties of the classifier\<close>

text \<open>
  The evidence texts of the rules of a table that match a string, in table order
  (a specification-side reading of one rule loop).
\<close>

definition matching :: "(pattern \<times> string) list \<Rightarrow> string \<Rightarrow> string list" where
  "matching rules s = map snd (filter (\<lambda>(p, desc). test p s) rules)"

lemma apply_rules_snd:
  "snd (apply_rules lv fmt rules s (l, fl)) = fl @ map fmt (matching rules s)"
  by (induction rules arbitrary: l fl) (auto simp: matching_def)

lemma apply_rules_fst:
  "fst (apply_rules lv fmt rules s (l, fl)) = (if matching rules s = [] then l else lv)"
  by (induction rules arbitrary: l fl) (auto simp: matching_def)

lemma apply_rules_eq:
  "apply_rules lv fmt rules s (l, fl) =
     (if matching rules s = [] then l else lv, fl @ map fmt (matching rules s))"
  using apply_rules_fst [of lv fmt rules s l fl] apply_rules_snd [of lv fmt rules s l fl]
  by (cases "apply_rules lv fmt rules s (l, fl)") simp

lemma shell_case_eq:
  "shell_case a =
     (let c = shell_command a in
      if matching CRITICAL_SHELL_PATTERNS c \<noteq> []
      then (CRITICAL, map (\<lambda>d. ''CRITICAL: '' @ d) (matching CRITICAL_SHELL_PATTERNS c))
      else if matching HIGH_RISK_SHELL_PATTERNS c \<noteq> []
      then (HIGH, map (\<lambda>d. ''HIGH: '' @ d) (matching HIGH_RISK_SHELL_PATTERNS c))
      else if matching MEDIUM_RISK_SHELL_PATTERNS c \<noteq> []
      then (MEDIUM, matching MEDIUM_RISK_SHELL_PATTERNS c)
      else (LOW, []))"
  by (simp add: shell_case_def Let_def apply_rules_eq)

text \<open>
  Claim C1, as amended. For a shell record the flags are the evidence of the matching
  rules of one tier only, the highest tier with a matching rule, in table order: the
  high-risk table is consulted only when no critical rule matched, and the medium-risk
  table only when neither a critical nor a high-risk rule matched. The level is that
  tier (low, with no flags, when nothing matches).
\<close>

theorem shell_flags_of_highest_matching_tier:
  assumes "categorize (tool r) = SHELL"
  shows "\<exists>v. analyzeRisk home r = Inr v \<and>
    (let c = shell_command (arguments r) in
       (level v, flags v) =
         (if matching CRITICAL_SHELL_PATTERNS c \<noteq> []
          then (CRITICAL, map (\<lambda>d. ''CRITICAL: '' @ d) (matching CRITICAL_SHELL_PATTERNS c))
          else if matching HIGH_RISK_SHELL_PATTERNS c \<noteq> []
          then (HIGH, map (\<lambda>d. ''HIGH: '' @ d) (matching HIGH_RISK_SHELL_PATTERNS c))
          else if matching MEDIUM_RISK_SHELL_PATTERNS c \<noteq> []
          then (MEDIUM, matching MEDIUM_RISK_SHELL_PATTERNS c)
          else (LOW, [])))"
  using assms by (simp add: analyzeRisk_def shell_case_eq Let_def)

theorem shell_flags_of_highest_matching_tier_witness:
  "categorize (tool \<lparr>tool = ''exec'', arguments = [(''command'', JStr ''sudo reboot'')]\<rparr>) = SHELL \<and>
   (\<exists>v. analyzeRisk None \<lparr>tool = ''exec'', arguments = [(''command'', JStr ''sudo reboot'')]\<rparr> = Inr v \<and>
     (level v, flags v) = (CRITICAL, [''CRITICAL: Privileged command execution'']))"
proof -
  let ?r = "\<lparr>tool = ''exec'', arguments = [(''command'', JStr ''sudo reboot'')]\<rparr>"
  have cat: "categorize (tool ?r) = SHELL"
    by code_simp
  have crit: "matching CRITICAL_SHELL_PATTERNS (shell_command (arguments ?r)) =
      [''Privileged command execution'']"
    by code_simp
  from shell_flags_of_highest_matching_tier [OF cat, of None] crit cat
  show ?thesis by (simp add: Let_def)
qed

text \<open>
  The claim as stated fails: the command \<^verbatim>\<open>sudo reboot\<close> matches the critical rule
  for \<^verbatim>\<open>sudo\<close> and the high-risk rule for \<^verbatim>\<open>reboot\<close>, and the flags hold the critical
  evidence only.
\<close>

theorem lower_tier_evidence_dropped:
  "matching CRITICAL_SHELL_PATTERNS ''sudo reboot'' = [''Privileged command execution''] \<and>
   matching HIGH_RISK_SHELL_PATTERNS ''sudo reboot'' = [''System reboot''] \<and>
   analyzeRisk None \<lparr>tool = ''exec'', arguments = [(''command'', JStr ''sudo reboot'')]\<rparr> =
     Inr \<lparr>level = CRITICAL, category = SHELL,
          flags = [''CRITICAL: Privileged command execution''], score = 4\<rparr>"
  by code_simp

text \<open>
  Claim C4. A shell record whose command matches at least one critical rule is
  classified critical, whatever else matches; and the record
  \<^verbatim>\<open>{tool: "exec", arguments: {command: "sudo rm -rf /"}}\<close> is classified critical with
  the evidence of the \<^verbatim>\<open>sudo\<close> rule and of the recursive-deletion rule in its flags.
\<close>

theorem critical_rule_gives_critical_level:
  "(categorize (tool r) = SHELL \<and>
      matching CRITICAL_SHELL_PATTERNS (shell_command (arguments r)) \<noteq> []
      \<longrightarrow> (\<exists>v. analyzeRisk home r = Inr v \<and> level v = CRITICAL)) \<and>
   analyzeRisk home \<lparr>tool = ''exec'', arguments = [(''command'', JStr ''sudo rm -rf /'')]\<rparr> =
     Inr \<lparr>level = CRITICAL, category = SHELL,
          flags = [''CRITICAL: Privileged command execution'',
                   ''CRITICAL: Recursive deletion of system/home paths''],
          score = 4\<rparr>"
proof
  show "categorize (tool r) = SHELL \<and>
      matching CRITICAL_SHELL_PATTERNS (shell_command (arguments r)) \<noteq> []
      \<longrightarrow> (\<exists>v. analyzeRisk home r = Inr v \<and> level v = CRITICAL)"
    by (simp add: analyzeRisk_def shell_case_eq Let_def)
  show "analyzeRisk home \<lparr>tool = ''exec'', arguments = [(''command'', JStr ''sudo rm -rf /'')]\<rparr> =
     Inr \<lparr>level = CRITICAL, category = SHELL,
          flags = [''CRITICAL: Privileged command execution'',
                   ''CRITICAL: Recursive deletion of system/home paths''],
          score = 4\<rparr>"
    by code_simp
qed

theorem critical_rule_gives_critical_level_witness:
  "categorize (tool \<lparr>tool = ''exec'', arguments = [(''command'', JStr ''sudo killall Finder'')]\<rparr>) = SHELL \<and>
   matching CRITICAL_SHELL_PATTERNS ''sudo killall Finder'' = [''Privileged command execution''] \<and>
   matching HIGH_RISK_SHELL_PATTERNS ''sudo killall Finder'' = [''Mass process termination''] \<and>
   (\<exists>v. analyzeRisk None \<lparr>tool = ''exec'', arguments = [(''command'', JStr ''sudo killall Finder'')]\<rparr> = Inr v
      \<and> level v = CRITICAL)"
proof -
  let ?r = "\<lparr>tool = ''exec'', arguments = [(''command'', JStr ''sudo killall Finder'')]\<rparr>"
  have cat: "categorize (tool ?r) = SHELL"
    by code_simp
  have cmd: "shell_command (arguments ?r) = ''sudo killall Finder''"
    by code_simp
  have crit: "matching CRITICAL_SHELL_PATTERNS ''sudo killall Finder'' =
      [''Privileged command execution'']"
    by code_simp
  have high: "matching HIGH_RISK_SHELL_PATTERNS ''sudo killall Finder'' =
      [''Mass process termination'']"
    by code_simp
  from critical_rule_gives_critical_level [of ?r None] cat cmd crit
  have "\<exists>v. analyzeRisk None ?r = Inr v \<and> level v = CRITICAL"
    by simp
  with cat crit high show ?thesis by simp
qed

text \<open>
  Two names are case variants of each other when they agree letter by letter up to case.
\<close>

definition case_variant_of_listed :: "string \<Rightarrow> bool" where
  "case_variant_of_listed t \<longleftrightarrow> map canon t \<in> set (map (\<lambda>(name, c). map canon name) categories)"

lemma inherited_names_not_variants:
  "list_all (\<lambda>m. \<not> case_variant_of_listed m) object_prototype_members"
  by code_simp

lemma variant_not_inherited:
  assumes "case_variant_of_listed t"
  shows "\<not> List.member object_prototype_members t"
proof
  assume "List.member object_prototype_members t"
  then have "t \<in> set object_prototype_members"
    by simp
  with inherited_names_not_variants have "\<not> case_variant_of_listed t"
    by (simp add: list_all_iff)
  with assms show False by simp
qed

text \<open>
  Claim C8, as amended. The category lookup is an exact match on the tool name. The
  table lists \<^verbatim>\<open>read\<close>, \<^verbatim>\<open>write\<close>, \<^verbatim>\<open>edit\<close> and their capitalised forms
  \<^verbatim>\<open>Read\<close>, \<^verbatim>\<open>Write\<close>, \<^verbatim>\<open>Edit\<close>: these six names, and no other, are in the file
  category, and a record classifies identically under a name and its capitalised form.
  Every other case variant of a listed name, one that the table does not list itself,
  falls into the category \<^verbatim>\<open>other\<close>.
\<close>

theorem file_tools_exact_match:
  "(categorize t = FILE \<longleftrightarrow>
      t \<in> set [''read'', ''write'', ''edit'', ''Read'', ''Write'', ''Edit'']) \<and>
   analyzeRisk home (r\<lparr>tool := ''Read''\<rparr>) = analyzeRisk home (r\<lparr>tool := ''read''\<rparr>) \<and>
   analyzeRisk home (r\<lparr>tool := ''Write''\<rparr>) = analyzeRisk home (r\<lparr>tool := ''write''\<rparr>) \<and>
   analyzeRisk home (r\<lparr>tool := ''Edit''\<rparr>) = analyzeRisk home (r\<lparr>tool := ''edit''\<rparr>) \<and>
   (case_variant_of_listed t \<and> t \<notin> fst ` set categories \<longrightarrow> categorize t = OTHER)"
proof (intro conjI)
  show "categorize t = FILE \<longleftrightarrow>
      t \<in> set [''read'', ''write'', ''edit'', ''Read'', ''Write'', ''Edit'']"
    by (simp add: categorize_def categories_def split: if_splits)
  show "analyzeRisk home (r\<lparr>tool := ''Read''\<rparr>) = analyzeRisk home (r\<lparr>tool := ''read''\<rparr>)"
    by (simp add: analyzeRisk_def categorize_def categories_def file_case_def)
  show "analyzeRisk home (r\<lparr>tool := ''Write''\<rparr>) = analyzeRisk home (r\<lparr>tool := ''write''\<rparr>)"
    by (simp add: analyzeRisk_def categorize_def categories_def file_case_def)
  show "analyzeRisk home (r\<lparr>tool := ''Edit''\<rparr>) = analyzeRisk home (r\<lparr>tool := ''edit''\<rparr>)"
    by (simp add: analyzeRisk_def categorize_def categories_def file_case_def)
  show "case_variant_of_listed t \<and> t \<notin> fst ` set categories \<longrightarrow> categorize t = OTHER"
  proof
    assume a: "case_variant_of_listed t \<and> t \<notin> fst ` set categories"
    then have "map_of categories t = None"
      by (simp add: map_of_eq_None_iff)
    moreover have "\<not> List.member object_prototype_members t"
      using a variant_not_inherited by blast
    ultimately show "categorize t = OTHER"
      by (simp add: categorize_def)
  qed
qed

theorem file_tools_exact_match_witness:
  "categorize ''Read'' = FILE \<and>
   analyzeRisk (Some ''/home/u'') \<lparr>tool = ''Read'', arguments = [(''path'', JStr ''/etc/hosts'')]\<rparr> =
     analyzeRisk (Some ''/home/u'') \<lparr>tool = ''read'', arguments = [(''path'', JStr ''/etc/hosts'')]\<rparr> \<and>
   case_variant_of_listed ''Web_Fetch'' \<and> ''Web_Fetch'' \<notin> fst ` set categories \<and>
   categorize ''Web_Fetch'' = OTHER"
proof -
  have h1: "case_variant_of_listed ''Web_Fetch''"
    by code_simp
  have h2: "''Web_Fetch'' \<notin> fst ` set categories"
    by (simp add: categories_def)
  from file_tools_exact_match
    [of "''Read''" "Some ''/home/u''" "\<lparr>tool = ''x'', arguments = [(''path'', JStr ''/etc/hosts'')]\<rparr>"]
  have a: "categorize ''Read'' = FILE \<and>
   analyzeRisk (Some ''/home/u'') \<lparr>tool = ''Read'', arguments = [(''path'', JStr ''/etc/hosts'')]\<rparr> =
     analyzeRisk (Some ''/home/u'') \<lparr>tool = ''read'', arguments = [(''path'', JStr ''/etc/hosts'')]\<rparr>"
    by simp
  from file_tools_exact_match [of "''Web_Fetch''"] h1 h2
  have b: "categorize ''Web_Fetch'' = OTHER"
    by blast
  from a b h1 h2 show ?thesis by blast
qed

text \<open>
  The claim as stated fails: \<^verbatim>\<open>READ\<close> and \<^verbatim>\<open>Exec\<close> are case variants of \<^verbatim>\<open>read\<close>
  and \<^verbatim>\<open>exec\<close> and fall into another category than they do.
\<close>

theorem case_variants_categorized_differently:
  "categorize ''READ'' = OTHER \<and> categorize ''read'' = FILE \<and>
   categorize ''Exec'' = OTHER \<and> categorize ''exec'' = SHELL"
  by code_simp

text \<open>
  Claim C9. The classifier does not return a verdict for every record: a truthy
  argument that is not a string reaches a string method in the network and file cases,
  and the call throws. The records \<^verbatim>\<open>{tool: "web_fetch", arguments: {url: 5}}\<close> and
  \<^verbatim>\<open>{tool: "read", arguments: {path: 5}}\<close> end in a \<^verbatim>\<open>TypeError\<close>. The part of the claim
  on unknown tools holds: \<^verbatim>\<open>teleport\<close> with any arguments is low with no flags.
\<close>

theorem analyzeRisk_throws_on_non_string_argument:
  "analyzeRisk home \<lparr>tool = ''web_fetch'', arguments = [(''url'', JNum 5)]\<rparr> = Inl TypeError \<and>
   analyzeRisk home \<lparr>tool = ''read'', arguments = [(''path'', JNum 5)]\<rparr> = Inl TypeError \<and>
   analyzeRisk home \<lparr>tool = ''teleport'', arguments = a\<rparr> =
     Inr \<lparr>level = LOW, category = OTHER, flags = [], score = 1\<rparr>"
proof (intro conjI)
  show "analyzeRisk home \<lparr>tool = ''web_fetch'', arguments = [(''url'', JNum 5)]\<rparr> = Inl TypeError"
    by code_simp
  show "analyzeRisk home \<lparr>tool = ''read'', arguments = [(''path'', JNum 5)]\<rparr> = Inl TypeError"
    by code_simp
  show "analyzeRisk home \<lparr>tool = ''teleport'', arguments = a\<rparr> =
     Inr \<lparr>level = LOW, category = OTHER, flags = [], score = 1\<rparr>"
    by (simp add: analyzeRisk_def categorize_def categories_def object_prototype_members_def)
qed

text \<open>
  Where the classifier does return: on records whose argument values are all strings
  (or missing), every case of the switch ends with a verdict.
\<close>

definition string_valued :: "args \<Rightarrow> bool" where
  "string_valued a = list_all (\<lambda>(k, v). case v of JStr s \<Rightarrow> True | _ \<Rightarrow> False) a"

lemma get_string_valued:
  assumes "string_valued a"
  shows "get a k = JUndefined \<or> (\<exists>s. get a k = JStr s)"
proof (cases "map_of a k")
  case None
  then show ?thesis by (simp add: get_def)
next
  case (Some v)
  then have "(k, v) \<in> set a"
    by (rule map_of_SomeD)
  with assms have "\<exists>s. v = JStr s"
    by (auto simp: string_valued_def list_all_iff split: jsval.splits)
  with Some show ?thesis by (auto simp: get_def)
qed

lemma or_empty_is_string:
  assumes "x = JUndefined \<or> (\<exists>s. x = JStr s)"
  shows "\<exists>s. js_or x (JStr []) = JStr s"
  using assms by (auto simp: js_or_def)

lemma or_or_empty_is_string:
  assumes "x = JUndefined \<or> (\<exists>s. x = JStr s)" and "y = JUndefined \<or> (\<exists>s. y = JStr s)"
  shows "\<exists>s. js_or (js_or x y) (JStr []) = JStr s"
  using assms by (auto simp: js_or_def)

lemma file_case_returns:
  assumes "string_valued a"
  shows "\<exists>v. file_case home tname a = Inr v"
proof -
  obtain p where p: "js_or (js_or (get a ''path'') (get a ''file_path'')) (JStr []) = JStr p"
    using or_or_empty_is_string [OF get_string_valued [OF assms] get_string_valued [OF assms]]
    by blast
  show ?thesis
    by (simp add: file_case_def Let_def p)
qed

lemma network_case_returns:
  assumes "string_valued a"
  shows "\<exists>v. network_case a = Inr v"
proof -
  obtain u where u: "js_or (get a ''url'') (JStr []) = JStr u"
    using or_empty_is_string [OF get_string_valued [OF assms]] by blast
  show ?thesis
    by (simp add: network_case_def Let_def u)
qed

lemma analyzeRisk_returns_on_strings:
  assumes "string_valued (arguments r)"
  shows "\<exists>v. analyzeRisk home r = Inr v"
proof -
  obtain fv where fv: "file_case home (tool r) (arguments r) = Inr fv"
    using file_case_returns [OF assms] by blast
  obtain nv where nv: "network_case (arguments r) = Inr nv"
    using network_case_returns [OF assms] by blast
  show ?thesis
    by (cases "categorize (tool r)")
      (simp_all add: analyzeRisk_def Let_def fv nv split: prod.splits)
qed

section \<open>Delivery buffer and log tailer (server.js)\<close>

text \<open>
  \<^verbatim>\<open>streamingConfig\<close> and \<^verbatim>\<open>alertConfig\<close>, with the fields the two functions read. An
  endpoint that is \<^verbatim>\<open>null\<close> is \<open>None\<close>.
\<close>

record streamingConfig =
  streaming_enabled :: bool
  endpoint :: "string option"
  authHeader :: "string option"
  batchSize :: nat

record alertConfig =
  alerts_enabled :: bool
  webhookUrl :: "string option"

text \<open>An entry of \<^verbatim>\<open>streamBuffer\<close>: a \<^verbatim>\<open>tool_call\<close> or a \<^verbatim>\<open>tool_result\<close> object.\<close>

datatype stream_entry =
    Tool_call (se_tool: string) (se_id: jsval) (se_arguments: args) (se_timestamp: jsval)
      (se_risk: verdict) (se_streamedAt: string) (se_sessionFile: string)
  | Tool_result (se_tool: string) (se_id: jsval) (se_result: jsval) (se_isError: jsval)
      (se_timestamp: jsval) (se_streamedAt: string) (se_sessionFile: string)

text \<open>
  The streaming state of the module: \<^verbatim>\<open>streamBuffer\<close>, \<^verbatim>\<open>lastProcessedLines\<close> and the
  fields of \<^verbatim>\<open>streamingStats\<close>.
\<close>

record server_state =
  streamBuffer :: "stream_entry list"
  lastProcessedLines :: "string \<rightharpoonup> nat"
  totalSent :: nat
  totalFailed :: nat
  lastSentAt :: "string option"
  lastError :: "string option"

text \<open>
  What \<^verbatim>\<open>await fetch(...)\<close> comes back with: a response (\<^verbatim>\<open>ok\<close>, \<^verbatim>\<open>status\<close>,
  \<^verbatim>\<open>statusText\<close>) or a rejection with an error message.
\<close>

datatype fetch_outcome = Response bool nat string | Rejected string

text \<open>\<^verbatim>\<open>xs.slice(-n)\<close>: the last \<open>n\<close> elements.\<close>

definition slice_last :: "nat \<Rightarrow> 'a list \<Rightarrow> 'a list" where
  "slice_last n xs = drop (length xs - n) xs"

definition falsy_text :: "string option \<Rightarrow> bool" where
  "falsy_text t = (t = None \<or> t = Some [])"

text \<open>
  \<^verbatim>\<open>flushStreamBuffer\<close> is an async function. Its first part runs up to the \<^verbatim>\<open>await\<close>:
  the guard, then the capture of the buffer as the batch and the reset of the buffer.
  \<open>None\<close> is the early return.
\<close>

definition flush_begin :: "streamingConfig \<Rightarrow> server_state \<Rightarrow> (stream_entry list \<times> server_state) option" where
  "flush_begin sc st =
     (if \<not> streaming_enabled sc \<or> falsy_text (endpoint sc) \<or> length (streamBuffer st) = 0
      then None
      else Some (streamBuffer st, st\<lparr>streamBuffer := []\<rparr>))"

text \<open>
  The message of the error the \<^verbatim>\<open>catch\<close> block sees: the one thrown for a response that
  is not ok, or the one of the rejection.
\<close>

fun failure_message :: "fetch_outcome \<Rightarrow> string" where
  "failure_message (Response okay status statusText) =
     ''HTTP '' @ show_nat status @ '': '' @ statusText"
| "failure_message (Rejected msg) = msg"

text \<open>
  Its second part runs when the request has settled, on the state as it is then
  (\<open>now\<close> is \<^verbatim>\<open>new Date().toISOString()\<close>).
\<close>

fun flush_complete :: "string \<Rightarrow> stream_entry list \<Rightarrow> fetch_outcome \<Rightarrow> server_state \<Rightarrow> server_state" where
  "flush_complete now batch (Response True status statusText) st =
     st\<lparr>totalSent := totalSent st + length batch, lastSentAt := Some now, lastError := None\<rparr>"
| "flush_complete now batch outcome st =
     st\<lparr>streamBuffer := slice_last 500 (slice_last 100 batch @ streamBuffer st),
        totalFailed := totalFailed st + length batch,
        lastError := Some (failure_message outcome)\<rparr>"

text \<open>
  A whole flush: \<open>during\<close> is what the rest of the program does to the state while the
  request is in flight.
\<close>

definition flushStreamBuffer ::
  "streamingConfig \<Rightarrow> string \<Rightarrow> fetch_outcome \<Rightarrow> (server_state \<Rightarrow> server_state) \<Rightarrow>
   server_state \<Rightarrow> server_state" where
  "flushStreamBuffer sc now outcome during st =
     (case flush_begin sc st of
        None \<Rightarrow> st
      | Some (batch, st1) \<Rightarrow> flush_complete now batch outcome (during st1))"

text \<open>Records pushed onto the buffer, as \<^verbatim>\<open>processNewLogEntries\<close> does while a flush waits.\<close>

definition enqueue :: "stream_entry list \<Rightarrow> server_state \<Rightarrow> server_state" where
  "enqueue es st = st\<lparr>streamBuffer := streamBuffer st @ es\<rparr>"

subsection \<open>The tailer\<close>

text \<open>
  What \<^verbatim>\<open>JSON.parse(line)\<close> gives, as far as the tailer looks into it. An element of
  \<^verbatim>\<open>entry.message.content\<close> is \<^verbatim>\<open>null\<close> (reading its \<^verbatim>\<open>type\<close> throws) or a value with
  the fields \<^verbatim>\<open>type\<close>, \<^verbatim>\<open>name\<close>, \<^verbatim>\<open>id\<close>, \<^verbatim>\<open>arguments\<close>, \<^verbatim>\<open>content\<close>, \<^verbatim>\<open>isError\<close>. A
  parsed line is \<^verbatim>\<open>null\<close> or a value with its \<^verbatim>\<open>type\<close>, its \<^verbatim>\<open>timestamp\<close> and, when
  \<^verbatim>\<open>message.content\<close> is an array, the elements of that array.
\<close>

datatype item =
    Null_item
  | Item (item_type: jsval) (item_name: string) (item_id: jsval) (item_arguments: args)
      (item_content: jsval) (item_isError: jsval)

datatype entry =
    Null_entry
  | Entry (entry_type: jsval) (entry_timestamp: jsval) (entry_content: "item list option")

text \<open>A call of \<^verbatim>\<open>sendAlert(activity, risk)\<close>.\<close>

record alert =
  alert_tool :: string
  alert_arguments :: args
  alert_timestamp :: jsval
  alert_risk :: verdict

text \<open>\<^verbatim>\<open>s.trim()\<close>\<close>

definition trim :: "string \<Rightarrow> string" where
  "trim s = rev (dropWhile is_space (rev (dropWhile is_space s)))"

text \<open>\<^verbatim>\<open>s.split(d)\<close> for a separator of one code unit.\<close>

fun split_on :: "char \<Rightarrow> string \<Rightarrow> string list" where
  "split_on d [] = [[]]"
| "split_on d (c # s) =
     (if c = d then [] # split_on d s
      else (case split_on d s of [] \<Rightarrow> [[c]] | l # ls \<Rightarrow> (c # l) # ls))"

definition newline :: char where
  "newline = char_of (10 :: nat)"

text \<open>\<^verbatim>\<open>content.trim().split('\n')\<close>\<close>

definition file_lines :: "string \<Rightarrow> string list" where
  "file_lines content = split_on newline (trim content)"

text \<open>\<^verbatim>\<open>filePath.split('/').pop()\<close>\<close>

definition session_file :: "string \<Rightarrow> string" where
  "session_file filePath = last (split_on CHR ''/'' filePath)"

text \<open>\<^verbatim>\<open>item.content?.substring?.(0, 500) || item.content\<close>\<close>

fun truncated :: "jsval \<Rightarrow> jsval" where
  "truncated (JStr s) = JStr (take 500 s)"
| "truncated v = v"

text \<open>
  The loop over the elements of one line's \<^verbatim>\<open>message.content\<close>, on the pair of the
  entries pushed and the alerts sent so far. An exception (a \<^verbatim>\<open>null\<close> element, or
  \<^verbatim>\<open>analyzeRisk\<close> throwing) leaves the loop for the line's \<^verbatim>\<open>catch\<close>: what was pushed
  before stays, the rest of the line is skipped.
\<close>

fun process_items ::
  "streamingConfig \<Rightarrow> alertConfig \<Rightarrow> string option \<Rightarrow> string \<Rightarrow> string \<Rightarrow> jsval \<Rightarrow> item list \<Rightarrow>
   stream_entry list \<times> alert list \<Rightarrow> stream_entry list \<times> alert list" where
  "process_items sc ac home now filePath ts [] acc = acc"
| "process_items sc ac home now filePath ts (Null_item # items) acc = acc"
| "process_items sc ac home now filePath ts (Item ty name ident arg content isError # items)
       (buf, sent) =
     (if ty = JStr ''toolCall'' then
        (case analyzeRisk home \<lparr>tool = name, arguments = arg\<rparr> of
           Inl e \<Rightarrow> (buf, sent)
         | Inr risk \<Rightarrow>
             process_items sc ac home now filePath ts items
               (if streaming_enabled sc
                then buf @ [Tool_call name ident arg ts risk now (session_file filePath)]
                else buf,
                if alerts_enabled ac
                then sent @ [\<lparr>alert_tool = name, alert_arguments = arg,
                               alert_timestamp = ts, alert_risk = risk\<rparr>]
                else sent))
      else if ty = JStr ''toolResult'' \<and> streaming_enabled sc then
        process_items sc ac home now filePath ts items
          (buf @ [Tool_result name ident (truncated content) isError ts now (session_file filePath)],
           sent)
      else process_items sc ac home now filePath ts items (buf, sent))"

text \<open>
  The loop over the new lines. \<open>parse\<close> is \<^verbatim>\<open>JSON.parse\<close> on the lines of the file:
  \<open>None\<close> when it throws.
\<close>

fun process_lines ::
  "streamingConfig \<Rightarrow> alertConfig \<Rightarrow> string option \<Rightarrow> string \<Rightarrow> (string \<Rightarrow> entry option) \<Rightarrow>
   string \<Rightarrow> string list \<Rightarrow> stream_entry list \<times> alert list \<Rightarrow> stream_entry list \<times> alert list" where
  "process_lines sc ac home now parse filePath [] acc = acc"
| "process_lines sc ac home now parse filePath (line # rest) acc =
     process_lines sc ac home now parse filePath rest
       (if trim line = [] then acc
        else (case parse line of
                None \<Rightarrow> acc
              | Some Null_entry \<Rightarrow> acc
              | Some (Entry ty ts content) \<Rightarrow>
                  (case content of
                     None \<Rightarrow> acc
                   | Some items \<Rightarrow>
                       if ty = JStr ''message''
                       then process_items sc ac home now filePath ts items acc
                       else acc)))"

text \<open>
  What one call of \<^verbatim>\<open>processNewLogEntries\<close> does: the state it leaves, the entries it
  pushed onto \<^verbatim>\<open>streamBuffer\<close>, its calls of \<^verbatim>\<open>sendAlert\<close>, and the batch of the flush it
  started, if it started one (the first part of \<^verbatim>\<open>flushStreamBuffer\<close> runs within the
  call).
\<close>

record poll_result =
  new_state :: server_state
  pushed :: "stream_entry list"
  alerts :: "alert list"
  flushing :: "stream_entry list option"

text \<open>
  \<^verbatim>\<open>processNewLogEntries(filePath)\<close>. \<open>readFileSync\<close> gives the content of a file, \<open>None\<close>
  when the read throws (the outer \<^verbatim>\<open>catch\<close> then logs, with the state untouched).
\<close>

definition processNewLogEntries ::
  "streamingConfig \<Rightarrow> alertConfig \<Rightarrow> string option \<Rightarrow> string \<Rightarrow> (string \<Rightarrow> entry option) \<Rightarrow>
   (string \<Rightarrow> string option) \<Rightarrow> string \<Rightarrow> server_state \<Rightarrow> poll_result" where
  "processNewLogEntries sc ac home now parse readFileSync filePath st =
     (if \<not> streaming_enabled sc \<and> \<not> alerts_enabled ac
      then \<lparr>new_state = st, pushed = [], alerts = [], flushing = None\<rparr>
      else
        (case readFileSync filePath of
           None \<Rightarrow> \<lparr>new_state = st, pushed = [], alerts = [], flushing = None\<rparr>
         | Some content \<Rightarrow>
             (let lines = file_lines content;
                  lastLine = (case lastProcessedLines st filePath of None \<Rightarrow> 0 | Some n \<Rightarrow> n);
                  newLines = drop lastLine lines;
                  st1 = st\<lparr>lastProcessedLines := (lastProcessedLines st)(filePath \<mapsto> length lines)\<rparr>;
                  (buf, sent) = process_lines sc ac home now parse filePath newLines ([], []);
                  st2 = st1\<lparr>streamBuffer := streamBuffer st1 @ buf\<rparr>
              in if streaming_enabled sc \<and> length (streamBuffer st2) \<ge> batchSize sc then
                   (case flush_begin sc st2 of
                      None \<Rightarrow> \<lparr>new_state = st2, pushed = buf, alerts = sent, flushing = None\<rparr>
                    | Some (batch, st3) \<Rightarrow>
                        \<lparr>new_state = st3, pushed = buf, alerts = sent, flushing = Some batch\<rparr>)
                 else \<lparr>new_state = st2, pushed = buf, alerts = sent, flushing = None\<rparr>)))"

section \<open>Properties of the delivery buffer and the tailer\<close>

fun failed :: "fetch_outcome \<Rightarrow> bool" where
  "failed (Response okay status statusText) = (\<not> okay)"
| "failed (Rejected msg) = True"

lemma slice_last_all: "length xs \<le> n \<Longrightarrow> slice_last n xs = xs"
  by (simp add: slice_last_def)

lemma flush_complete_failed:
  "failed outcome \<Longrightarrow>
   flush_complete now batch outcome st =
     st\<lparr>streamBuffer := slice_last 500 (slice_last 100 batch @ streamBuffer st),
        totalFailed := totalFailed st + length batch,
        lastError := Some (failure_message outcome)\<rparr>"
  by (cases outcome) auto

text \<open>
  Claim C2. When the flush of a non-empty buffer fails (a response that is not ok, or a
  rejected request), the failed batch is put back without its oldest entries, those
  before the last 100, in front of what the buffer holds by then (the records pushed
  during the flush), and the oldest entries of the result, those before the last 500,
  are cut: the buffer ends within 500 entries. \<^verbatim>\<open>totalFailed\<close> grows by the size of
  the batch, \<^verbatim>\<open>totalSent\<close> is unchanged and the error message is recorded. A failed
  flush of five records with nothing pushed meanwhile leaves exactly those five in the
  buffer and adds five to \<^verbatim>\<open>totalFailed\<close>.
\<close>

theorem failed_flush_requeues_batch:
  assumes "streaming_enabled sc" and "\<not> falsy_text (endpoint sc)"
    and "streamBuffer st \<noteq> []" and "failed outcome"
  shows "(let batch = streamBuffer st;
              mid = during (st\<lparr>streamBuffer := []\<rparr>);
              st' = flushStreamBuffer sc now outcome during st;
              requeued = drop (length batch - 100) batch;
              joined = requeued @ streamBuffer mid
          in streamBuffer st' = drop (length joined - 500) joined \<and>
             (\<exists>dropped evicted.
                batch = dropped @ requeued \<and> length requeued = min 100 (length batch) \<and>
                joined = evicted @ streamBuffer st' \<and>
                length (streamBuffer st') = min 500 (length joined)) \<and>
             length (streamBuffer st') \<le> 500 \<and>
             totalFailed st' = totalFailed mid + length batch \<and>
             totalSent st' = totalSent mid \<and>
             lastError st' = Some (failure_message outcome)) \<and>
         (length (streamBuffer st) = 5 \<longrightarrow>
            streamBuffer (flushStreamBuffer sc now outcome (\<lambda>s. s) st) = streamBuffer st \<and>
            totalFailed (flushStreamBuffer sc now outcome (\<lambda>s. s) st) = totalFailed st + 5 \<and>
            totalSent (flushStreamBuffer sc now outcome (\<lambda>s. s) st) = totalSent st)"
proof -
  have fb: "flush_begin sc st = Some (streamBuffer st, st\<lparr>streamBuffer := []\<rparr>)"
    using assms(1-3) by (simp add: flush_begin_def)
  have run: "flushStreamBuffer sc now outcome d st =
      (d (st\<lparr>streamBuffer := []\<rparr>))
        \<lparr>streamBuffer := slice_last 500 (slice_last 100 (streamBuffer st) @
            streamBuffer (d (st\<lparr>streamBuffer := []\<rparr>))),
         totalFailed := totalFailed (d (st\<lparr>streamBuffer := []\<rparr>)) + length (streamBuffer st),
         lastError := Some (failure_message outcome)\<rparr>" for d
    using assms(4) by (simp add: flushStreamBuffer_def fb flush_complete_failed)
  define batch where "batch = streamBuffer st"
  define mid where "mid = during (st\<lparr>streamBuffer := []\<rparr>)"
  define st' where "st' = flushStreamBuffer sc now outcome during st"
  define requeued where "requeued = drop (length batch - 100) batch"
  define joined where "joined = requeued @ streamBuffer mid"
  have buf: "streamBuffer st' = drop (length joined - 500) joined"
    by (simp add: st'_def run slice_last_def joined_def requeued_def batch_def mid_def)
  have a: "batch = take (length batch - 100) batch @ requeued"
    by (simp add: requeued_def)
  have b: "length requeued = min 100 (length batch)"
    by (simp add: requeued_def)
  have c: "joined = take (length joined - 500) joined @ streamBuffer st'"
    by (simp add: buf)
  have d: "length (streamBuffer st') = min 500 (length joined)"
    by (simp add: buf)
  have ex: "\<exists>dropped evicted.
                batch = dropped @ requeued \<and> length requeued = min 100 (length batch) \<and>
                joined = evicted @ streamBuffer st' \<and>
                length (streamBuffer st') = min 500 (length joined)"
    using a b c d by blast
  have le: "length (streamBuffer st') \<le> 500"
    using d by simp
  have stats: "totalFailed st' = totalFailed mid + length batch" "totalSent st' = totalSent mid"
    "lastError st' = Some (failure_message outcome)"
    by (simp_all add: st'_def run mid_def batch_def)
  have general: "(let batch = streamBuffer st;
              mid = during (st\<lparr>streamBuffer := []\<rparr>);
              st' = flushStreamBuffer sc now outcome during st;
              requeued = drop (length batch - 100) batch;
              joined = requeued @ streamBuffer mid
          in streamBuffer st' = drop (length joined - 500) joined \<and>
             (\<exists>dropped evicted.
                batch = dropped @ requeued \<and> length requeued = min 100 (length batch) \<and>
                joined = evicted @ streamBuffer st' \<and>
                length (streamBuffer st') = min 500 (length joined)) \<and>
             length (streamBuffer st') \<le> 500 \<and>
             totalFailed st' = totalFailed mid + length batch \<and>
             totalSent st' = totalSent mid \<and>
             lastError st' = Some (failure_message outcome))"
    unfolding Let_def
    using buf ex le stats
    unfolding batch_def mid_def st'_def requeued_def joined_def
    by blast
  have five: "length (streamBuffer st) = 5 \<longrightarrow>
            streamBuffer (flushStreamBuffer sc now outcome (\<lambda>s. s) st) = streamBuffer st \<and>
            totalFailed (flushStreamBuffer sc now outcome (\<lambda>s. s) st) = totalFailed st + 5 \<and>
            totalSent (flushStreamBuffer sc now outcome (\<lambda>s. s) st) = totalSent st"
    by (simp add: run slice_last_all)
  from general five show ?thesis by blast
qed

definition sample_results :: "stream_entry list" where
  "sample_results =
     map (\<lambda>i. Tool_result ''exec'' (JNum i) (JStr ''ok'') (JBool False) (JStr ''t'') ''now'' ''s.jsonl'')
       [1, 2, 3, 4, 5]"

definition sample_config :: streamingConfig where
  "sample_config =
     \<lparr>streaming_enabled = True, endpoint = Some ''https://sink.example/ingest'',
      authHeader = None, batchSize = 10\<rparr>"

definition sample_state :: server_state where
  "sample_state =
     \<lparr>streamBuffer = sample_results, lastProcessedLines = Map.empty, totalSent = 7,
      totalFailed = 0, lastSentAt = None, lastError = None\<rparr>"

text \<open>
  A batch of 102 records, numbered 1 to 102, with records 103 to 552 pushed while the
  request is in flight: records 1 and 2 are not put back, and of the 550 joined records
  the first fifty are cut.
\<close>

definition numbered :: "nat \<Rightarrow> stream_entry" where
  "numbered i =
     Tool_result ''exec'' (JNum (int i)) (JStr ''ok'') (JBool False) (JStr ''t'') ''now'' ''s.jsonl''"

definition large_state :: server_state where
  "large_state =
     \<lparr>streamBuffer = map numbered [1 ..< 103], lastProcessedLines = Map.empty, totalSent = 7,
      totalFailed = 0, lastSentAt = None, lastError = None\<rparr>"

theorem failed_flush_requeues_batch_witness:
  "streaming_enabled sample_config \<and> \<not> falsy_text (endpoint sample_config) \<and>
   streamBuffer sample_state \<noteq> [] \<and> failed (Response False 500 ''Internal Server Error'') \<and>
   length (streamBuffer sample_state) = 5 \<and>
   streamBuffer (flushStreamBuffer sample_config ''later''
       (Response False 500 ''Internal Server Error'') (\<lambda>s. s) sample_state) = sample_results \<and>
   totalFailed (flushStreamBuffer sample_config ''later''
       (Response False 500 ''Internal Server Error'') (\<lambda>s. s) sample_state) = 5 \<and>
   totalSent (flushStreamBuffer sample_config ''later''
       (Response False 500 ''Internal Server Error'') (\<lambda>s. s) sample_state) = 7 \<and>
   lastError (flushStreamBuffer sample_config ''later''
       (Response False 500 ''Internal Server Error'') (\<lambda>s. s) sample_state) =
     Some ''HTTP 500: Internal Server Error'' \<and>
   streamBuffer large_state \<noteq> [] \<and> failed (Rejected ''fetch failed'') \<and>
   streamBuffer (flushStreamBuffer sample_config ''later'' (Rejected ''fetch failed'')
       (enqueue (map numbered [103 ..< 553])) large_state) = map numbered [53 ..< 553] \<and>
   totalFailed (flushStreamBuffer sample_config ''later'' (Rejected ''fetch failed'')
       (enqueue (map numbered [103 ..< 553])) large_state) = 102 \<and>
   totalSent (flushStreamBuffer sample_config ''later'' (Rejected ''fetch failed'')
       (enqueue (map numbered [103 ..< 553])) large_state) = 7 \<and>
   lastError (flushStreamBuffer sample_config ''later'' (Rejected ''fetch failed'')
       (enqueue (map numbered [103 ..< 553])) large_state) = Some ''fetch failed''"
proof -
  have h1: "streaming_enabled sample_config" by (simp add: sample_config_def)
  have h2: "\<not> falsy_text (endpoint sample_config)" by (simp add: sample_config_def falsy_text_def)
  have h3: "streamBuffer sample_state \<noteq> []" by (simp add: sample_state_def sample_results_def)
  have h4: "failed (Response False 500 ''Internal Server Error'')" by simp
  have h5: "length (streamBuffer sample_state) = 5" by (simp add: sample_state_def sample_results_def)
  have s: "streamBuffer sample_state = sample_results" "totalFailed sample_state = 0"
    "totalSent sample_state = 7"
    by (simp_all add: sample_state_def)
  from failed_flush_requeues_batch [OF h1 h2 h3 h4, of "\<lambda>s. s" "''later''"] h5 s
  have small: "streamBuffer (flushStreamBuffer sample_config ''later''
       (Response False 500 ''Internal Server Error'') (\<lambda>s. s) sample_state) = sample_results \<and>
   totalFailed (flushStreamBuffer sample_config ''later''
       (Response False 500 ''Internal Server Error'') (\<lambda>s. s) sample_state) = 5 \<and>
   totalSent (flushStreamBuffer sample_config ''later''
       (Response False 500 ''Internal Server Error'') (\<lambda>s. s) sample_state) = 7"
    by simp
  have msg: "failure_message (Response False 500 ''Internal Server Error'') =
      ''HTTP 500: Internal Server Error''"
    by code_simp
  from failed_flush_requeues_batch [OF h1 h2 h3 h4, of "\<lambda>s. s" "''later''"]
  have "lastError (flushStreamBuffer sample_config ''later''
       (Response False 500 ''Internal Server Error'') (\<lambda>s. s) sample_state) =
     Some (failure_message (Response False 500 ''Internal Server Error''))"
    unfolding Let_def by blast
  with msg have err: "lastError (flushStreamBuffer sample_config ''later''
       (Response False 500 ''Internal Server Error'') (\<lambda>s. s) sample_state) =
     Some ''HTTP 500: Internal Server Error''"
    by (simp only:)
  have g3: "streamBuffer large_state \<noteq> []" by (simp add: large_state_def)
  have g4: "failed (Rejected ''fetch failed'')" by simp
  let ?mid = "enqueue (map numbered [103 ..< 553]) (large_state\<lparr>streamBuffer := []\<rparr>)"
  let ?joined = "drop (length (streamBuffer large_state) - 100) (streamBuffer large_state)
      @ streamBuffer ?mid"
  let ?after = "flushStreamBuffer sample_config ''later'' (Rejected ''fetch failed'')
      (enqueue (map numbered [103 ..< 553])) large_state"
  from failed_flush_requeues_batch [OF h1 h2 g3 g4, of "enqueue (map numbered [103 ..< 553])" "''later''"]
  have t: "streamBuffer ?after = drop (length ?joined - 500) ?joined"
    "totalFailed ?after = totalFailed ?mid + length (streamBuffer large_state)"
    "totalSent ?after = totalSent ?mid"
    "lastError ?after = Some (failure_message (Rejected ''fetch failed''))"
    unfolding Let_def by blast+
  have v: "drop (length ?joined - 500) ?joined = map numbered [53 ..< 553]"
    "totalFailed ?mid + length (streamBuffer large_state) = 102"
    "totalSent ?mid = 7"
    by code_simp+
  have large: "streamBuffer ?after = map numbered [53 ..< 553] \<and> totalFailed ?after = 102 \<and>
      totalSent ?after = 7 \<and> lastError ?after = Some ''fetch failed''"
    using t v by simp
  from h1 h2 h3 h4 h5 small err g3 g4 large show ?thesis by blast
qed

text \<open>What an enabled poll of a readable file does.\<close>

lemma poll_enabled:
  assumes "streaming_enabled sc \<or> alerts_enabled ac" and "fs f = Some content"
  shows "pushed (processNewLogEntries sc ac home now parse fs f st) =
           fst (process_lines sc ac home now parse f
             (drop (case lastProcessedLines st f of None \<Rightarrow> 0 | Some n \<Rightarrow> n) (file_lines content))
             ([], []))"
    and "alerts (processNewLogEntries sc ac home now parse fs f st) =
           snd (process_lines sc ac home now parse f
             (drop (case lastProcessedLines st f of None \<Rightarrow> 0 | Some n \<Rightarrow> n) (file_lines content))
             ([], []))"
    and "lastProcessedLines (new_state (processNewLogEntries sc ac home now parse fs f st)) =
           (lastProcessedLines st)(f \<mapsto> length (file_lines content))"
  using assms
  by (auto simp: processNewLogEntries_def Let_def flush_begin_def
      split: prod.splits option.splits if_splits)

lemma poll_disabled:
  "\<not> streaming_enabled sc \<Longrightarrow> \<not> alerts_enabled ac \<Longrightarrow>
   processNewLogEntries sc ac home now parse fs f st =
     \<lparr>new_state = st, pushed = [], alerts = [], flushing = None\<rparr>"
  by (simp add: processNewLogEntries_def)

lemma poll_unreadable:
  "fs f = None \<Longrightarrow>
   processNewLogEntries sc ac home now parse fs f st =
     \<lparr>new_state = st, pushed = [], alerts = [], flushing = None\<rparr>"
  by (simp add: processNewLogEntries_def)


text \<open>
  Claim C5. Two calls in a row on the same file content: the second pushes nothing and
  sends no alert, whatever \<^verbatim>\<open>JSON.parse\<close> would make of the lines by then. When a
  feature is enabled and the file is readable, the first call has set the cursor to the
  number of lines of the file, whether or not its lines parsed.
\<close>

theorem second_poll_emits_nothing:
  "(let r1 = processNewLogEntries sc ac home now parse fs f st;
        r2 = processNewLogEntries sc ac home' now' parse' fs f (new_state r1)
    in pushed r2 = [] \<and> alerts r2 = [] \<and>
       ((streaming_enabled sc \<or> alerts_enabled ac) \<longrightarrow>
          (\<forall>content. fs f = Some content \<longrightarrow>
             lastProcessedLines (new_state r1) f = Some (length (file_lines content)) \<and>
             lastProcessedLines (new_state r2) f = Some (length (file_lines content)))))"
proof (cases "streaming_enabled sc \<or> alerts_enabled ac")
  case False
  then show ?thesis by (simp add: poll_disabled)
next
  case en: True
  show ?thesis
  proof (cases "fs f")
    case None
    then show ?thesis by (simp add: poll_unreadable)
  next
    case (Some content)
    let ?r1 = "processNewLogEntries sc ac home now parse fs f st"
    have c1: "lastProcessedLines (new_state ?r1) f = Some (length (file_lines content))"
      by (simp add: poll_enabled(3) [where fs = fs and f = f, OF en Some])
    let ?r2 = "processNewLogEntries sc ac home' now' parse' fs f (new_state ?r1)"
    have "pushed ?r2 = []" "alerts ?r2 = []"
      by (simp_all add: poll_enabled(1,2) [where fs = fs and f = f, OF en Some] c1)
    moreover have "lastProcessedLines (new_state ?r2) f = Some (length (file_lines content))"
      by (simp add: poll_enabled(3) [where fs = fs and f = f, OF en Some])
    ultimately show ?thesis using c1 Some by (simp add: Let_def)
  qed
qed


subsection \<open>A sample source\<close>

text \<open>
  A sample source: one line, the JSON text of a message with one tool call, and
  \<^verbatim>\<open>JSON.parse\<close> restricted to that line.
\<close>

definition sample_line :: string where
  \<open>sample_line = ''{"type":"message","timestamp":"2026-01-01T00:00:00Z","message":{"content":[{"type":"toolCall","name":"exec","id":"c1","arguments":{"command":"ls"}}]}}''\<close>

definition sample_parse :: "string \<Rightarrow> entry option" where
  "sample_parse l =
     (if l = sample_line
      then Some (Entry (JStr ''message'') (JStr ''2026-01-01T00:00:00Z'')
             (Some [Item (JStr ''toolCall'') ''exec'' (JStr ''c1'') [(''command'', JStr ''ls'')]
                      JUndefined JUndefined]))
      else None)"

definition sample_source :: "string \<Rightarrow> string option" where
  "sample_source p = (if p = ''/logs/s.jsonl'' then Some (sample_line @ [newline]) else None)"

definition alerts_off :: alertConfig where
  "alerts_off = \<lparr>alerts_enabled = False, webhookUrl = None\<rparr>"


definition state_at :: "nat option \<Rightarrow> server_state" where
  "state_at c =
     \<lparr>streamBuffer = [], lastProcessedLines = (\<lambda>p. if p = ''/logs/s.jsonl'' then c else None),
      totalSent = 0, totalFailed = 0, lastSentAt = None, lastError = None\<rparr>"



theorem second_poll_emits_nothing_witness:
  "(streaming_enabled sample_config \<or> alerts_enabled alerts_off) \<and>
   sample_source ''/logs/s.jsonl'' = Some (sample_line @ [newline]) \<and>
   pushed (processNewLogEntries sample_config alerts_off None ''now'' sample_parse sample_source
       ''/logs/s.jsonl'' (state_at None)) \<noteq> [] \<and>
   pushed (processNewLogEntries sample_config alerts_off None ''later'' sample_parse sample_source
       ''/logs/s.jsonl''
       (new_state (processNewLogEntries sample_config alerts_off None ''now'' sample_parse
          sample_source ''/logs/s.jsonl'' (state_at None)))) = [] \<and>
   lastProcessedLines
       (new_state (processNewLogEntries sample_config alerts_off None ''now'' sample_parse
          sample_source ''/logs/s.jsonl'' (state_at None))) ''/logs/s.jsonl'' = Some 1"
proof -
  have h1: "streaming_enabled sample_config \<or> alerts_enabled alerts_off"
    by (simp add: sample_config_def)
  have h2: "sample_source ''/logs/s.jsonl'' = Some (sample_line @ [newline])"
    by (simp add: sample_source_def)
  have len: "length (file_lines (sample_line @ [newline])) = 1"
    by code_simp
  have first: "pushed (processNewLogEntries sample_config alerts_off None ''now'' sample_parse
      sample_source ''/logs/s.jsonl'' (state_at None)) \<noteq> []"
    by code_simp
  from second_poll_emits_nothing [where sc = sample_config and ac = alerts_off and home = None
      and now = "''now''" and parse = sample_parse and fs = sample_source
      and f = "''/logs/s.jsonl''" and st = "state_at None" and home' = None
      and now' = "''later''" and parse' = sample_parse] h1 h2 len
  have "pushed (processNewLogEntries sample_config alerts_off None ''later'' sample_parse sample_source
       ''/logs/s.jsonl''
       (new_state (processNewLogEntries sample_config alerts_off None ''now'' sample_parse
          sample_source ''/logs/s.jsonl'' (state_at None)))) = [] \<and>
   lastProcessedLines
       (new_state (processNewLogEntries sample_config alerts_off None ''now'' sample_parse
          sample_source ''/logs/s.jsonl'' (state_at None))) ''/logs/s.jsonl'' = Some 1"
    by (simp add: Let_def)
  with h1 h2 first show ?thesis by blast
qed


section \<open>Sequence detector (the /sequences route)\<close>

text \<open>
  An activity record as the detector reads it: tool, arguments and timestamp. The
  timestamp is the number of milliseconds \<^verbatim>\<open>new Date(a.timestamp)\<close> stands for; records
  whose timestamp is not a date are not modelled.
\<close>

record activity = call +
  timestamp :: int

text \<open>
  The helper predicates of the route, as \<^verbatim>\<open>server.js\<close> defines them (the module
  \<^verbatim>\<open>lib/sequence-helpers.js\<close> that the route file imports them from is not among the
  sources). Each starts with \<^verbatim>\<open>if (!x) return false\<close>.
\<close>

definition isSensitivePath :: "jsval \<Rightarrow> bool" where
  "isSensitivePath path =
     (truthy path \<and>
      list_ex (\<lambda>p. test p (to_string path))
        [ci [Lits ''.env''], ci [Lits ''.ssh''], ci [Lits ''.aws''], ci [Lits ''.gnupg''],
         ci [Lits ''password''], ci [Lits ''secret''], ci [Lits ''credential''], ci [Lits ''token''],
         ci [Lits ''keychain''], ci [Lits ''id_rsa''], ci [Lits ''.pem'', Eol], ci [Lits ''.key'', Eol],
         ci [Lits ''1password''], ci [Lits ''bitwarden''], ci [Lits ''lastpass'']])"

definition isNetworkCommand :: "jsval \<Rightarrow> bool" where
  "isNetworkCommand cmd =
     (truthy cmd \<and>
      test (ci [WordB, one_of [''curl'', ''wget'', ''nc'', ''netcat'', ''ssh'', ''scp'', ''rsync''], WordB])
        (to_string cmd))"

definition isSudoCommand :: "jsval \<Rightarrow> bool" where
  "isSudoCommand cmd = (truthy cmd \<and> test (ci [WordB, Lits ''sudo'', WordB]) (to_string cmd))"

definition isDestructiveCommand :: "jsval \<Rightarrow> bool" where
  "isDestructiveCommand cmd =
     (truthy cmd \<and>
      test (ci [WordB,
                alts [seqs [Lits ''rm'', sp1, Lits ''-rf''], seqs [Lits ''chmod'', sp1, Lits ''777''],
                      seqs [Lits ''dd'', sp1, Lits ''if=''], Lits ''mkfs''],
                WordB])
        (to_string cmd))"

definition isConfigFile :: "jsval \<Rightarrow> bool" where
  "isConfigFile path =
     (truthy path \<and>
      (test (ci [Lits ''.'',
                 alts [Lits ''env'', Lits ''json'', seqs [Lits ''y'', Opt (Lits ''a''), Lits ''ml''],
                       Lits ''toml'', Lits ''ini'', Lits ''conf'', Lits ''config''],
                 Eol])
         (to_string path) \<or>
       test (ci [Lits ''config'']) (to_string path)))"

abbreviation alnum :: regex where
  "alnum \<equiv> Atom [Rng CHR ''a'' CHR ''z'', Rng CHR ''A'' CHR ''Z'', Rng CHR ''0'' CHR ''9'']"

abbreviation assigned :: "regex list" where
  "assigned \<equiv> [sp0, Atom [Lit CHR '':'', Lit CHR ''=''], sp0, Plus (Atom [NonSpace])]"

definition containsSensitivePatterns :: "jsval \<Rightarrow> bool" where
  "containsSensitivePatterns txt =
     (truthy txt \<and>
      list_ex (\<lambda>p. test p (to_string txt))
        [cs [Lits ''sk-'', AtLeast 20 alnum],
         cs [AtLeast 40 alnum],
         ci (Lits ''password'' # assigned),
         ci ([Lits ''api'', Opt (Atom [Lit CHR ''_'', Lit CHR ''-'']), Lits ''key''] @ assigned),
         ci (Lits ''token'' # assigned),
         ci (Lits ''secret'' # assigned)])"

definition isSSHKeyPath :: "jsval \<Rightarrow> bool" where
  "isSSHKeyPath path =
     (truthy path \<and>
      (test (ci [Lits ''.'', one_of [''ssh'', ''gnupg''], Lits ''/'',
                 one_of [''id_'', ''authorized_keys'', ''known_hosts'', ''config'']])
         (to_string path) \<or>
       test (ci [Lits ''id_'', one_of [''rsa'', ''ed25519'', ''ecdsa'', ''dsa'']]) (to_string path)))"

definition isDownloadCommand :: "jsval \<Rightarrow> bool" where
  "isDownloadCommand cmd =
     (truthy cmd \<and>
      test (ci [WordB,
                alts [seqs [Lits ''curl'', sp1, one_of [''-O'', ''--output'', ''-o'']],
                      Lits ''wget'', Lits ''aria2c''],
                WordB])
        (to_string cmd))"

definition isExecuteCommand :: "jsval \<Rightarrow> bool" where
  "isExecuteCommand cmd =
     (truthy cmd \<and>
      test (ci [WordB,
                alts [Lits ''bash'', Lits ''sh'', Lits ''zsh'', seqs [Lits ''chmod'', sp1, Lits ''+x''],
                      Lits ''./'', Lits ''python'', Lits ''node'', Lits ''ruby'', Lits ''perl''],
                Atom [SpaceChar]])
        (to_string cmd))"

definition isPasswordManagerCommand :: "jsval \<Rightarrow> bool" where
  "isPasswordManagerCommand cmd =
     (truthy cmd \<and>
      test (ci [WordB,
                alts [seqs [Lits ''op'', sp1, one_of [''read'', ''get'', ''item'']],
                      seqs [Lits ''bw'', sp1, one_of [''get'', ''list'']],
                      seqs [Lits ''security'', sp1, Lits ''find-'', one_of [''generic'', ''internet''],
                            Lits ''-password''],
                      seqs [Lits ''pass'', sp1, Lits ''show'']],
                WordB])
        (to_string cmd))"

definition isPersistencePath :: "jsval \<Rightarrow> bool" where
  "isPersistencePath path =
     (truthy path \<and>
      test (ci [one_of [''LaunchAgents'', ''LaunchDaemons'', ''cron.d'', ''systemd'', ''autostart'',
                        ''init.d'']])
        (to_string path))"

text \<open>
  \<^verbatim>\<open>v?.substring(0, n)\<close>. Every call of the route is on \<^verbatim>\<open>undefined\<close> or on a value
  that has passed a regular expression only a string passes; the last equation is not
  reached.
\<close>

fun substring :: "nat \<Rightarrow> jsval \<Rightarrow> jsval" where
  "substring n (JStr s) = JStr (take n s)"
| "substring n JUndefined = JUndefined"
| "substring n JNull = JUndefined"
| "substring n v = v"

text \<open>
  A flagged sequence. The pattern identifier \<^verbatim>\<open>type\<close> is one of fourteen texts, some
  with an arrow in them; they are the constructors of \<open>seq_type\<close>, in the order in which
  the route can push them.
\<close>

datatype seq_type =
    Credential_Access_Network
  | Credential_Access_Web_Fetch
  | Multiple_Privileged_Operations
  | Config_Change_Restart
  | Potential_Data_Leak_via_Message
  | SSH_Key_Access_Connection
  | Clone_Package_Install
  | Download_Execute
  | Password_Manager_Outbound
  | Bulk_File_Enumeration
  | Persistence_Mechanism
  | Persistence_via_File
  | Media_Capture
  | Keychain_Access

record action =
  action_tool :: string
  action_timestamp :: int
  summary :: jsval

record sequence =
  seq_type :: seq_type
  description :: string
  reason :: string
  seq_timestamp :: int
  actions :: "action list"

text \<open>\<^verbatim>\<open>args.path || args.file_path\<close>\<close>

definition path_of :: "'a activity_scheme \<Rightarrow> jsval" where
  "path_of a = js_or (get (arguments a) ''path'') (get (arguments a) ''file_path'')"

text \<open>\<^verbatim>\<open>a.arguments?.command\<close> and \<^verbatim>\<open>args.command || ''\<close>\<close>

definition command_of :: "'a activity_scheme \<Rightarrow> jsval" where
  "command_of a = get (arguments a) ''command''"

definition cmd_of :: "'a activity_scheme \<Rightarrow> jsval" where
  "cmd_of a = js_or (command_of a) (JStr [])"

definition is_read :: "'a activity_scheme \<Rightarrow> bool" where
  "is_read a = (tool a = ''read'' \<or> tool a = ''Read'')"

text \<open>
  The look-ahead loop of the window-bounded patterns:
  \<^verbatim>\<open>for (j = i + 1; ...) { if (timeDiff > window) break; if (...) { push; break } }\<close>.
  \<open>found\<close> gives the sequence pushed for a record that qualifies; the result is the first
  such sequence, \<open>None\<close> when the loop ends or breaks without one.
\<close>

fun look_ahead :: "int \<Rightarrow> int \<Rightarrow> (activity \<Rightarrow> sequence option) \<Rightarrow> activity list \<Rightarrow> sequence option" where
  "look_ahead window t0 found [] = None"
| "look_ahead window t0 found (nxt # rest) =
     (if timestamp nxt - t0 > window then None
      else (case found nxt of
              Some s \<Rightarrow> Some s
            | None \<Rightarrow> look_ahead window t0 found rest))"

definition pushes :: "sequence option \<Rightarrow> sequence list" where
  "pushes r = (case r of None \<Rightarrow> [] | Some s \<Rightarrow> [s])"

text \<open>Pattern 1: read of a sensitive file, then a network command or a web fetch.\<close>

definition found1 :: "activity \<Rightarrow> activity \<Rightarrow> sequence option" where
  "found1 current nxt =
     (if tool nxt = ''exec'' \<and> isNetworkCommand (command_of nxt) then
        Some \<lparr>seq_type = Credential_Access_Network,
              description = ''Read '' @ to_string (path_of current) @ '' then executed network command'',
              reason = ''Sensitive file was read shortly before network activity, potential data exfiltration'',
              seq_timestamp = timestamp current,
              actions =
                [\<lparr>action_tool = tool current, action_timestamp = timestamp current,
                  summary = path_of current\<rparr>,
                 \<lparr>action_tool = tool nxt, action_timestamp = timestamp nxt,
                  summary = substring 100 (command_of nxt)\<rparr>]\<rparr>
      else if tool nxt = ''web_fetch'' then
        Some \<lparr>seq_type = Credential_Access_Web_Fetch,
              description = ''Read '' @ to_string (path_of current) @ '' then fetched ''
                @ to_string (get (arguments nxt) ''url''),
              reason = ''Sensitive file was read shortly before external request, potential credential leak'',
              seq_timestamp = timestamp current,
              actions =
                [\<lparr>action_tool = tool current, action_timestamp = timestamp current,
                  summary = path_of current\<rparr>,
                 \<lparr>action_tool = tool nxt, action_timestamp = timestamp nxt,
                  summary = get (arguments nxt) ''url''\<rparr>]\<rparr>
      else None)"

definition pattern1 :: "int \<Rightarrow> activity \<Rightarrow> activity list \<Rightarrow> sequence list" where
  "pattern1 windowMs current rest =
     (if is_read current \<and> isSensitivePath (path_of current)
      then pushes (look_ahead windowMs (timestamp current) (found1 current) rest)
      else [])"

text \<open>
  Pattern 2: a privileged or destructive command with at least two more among the three
  records before and the three after it, within the window.
\<close>

definition dangerous :: "jsval \<Rightarrow> bool" where
  "dangerous cmd = (isSudoCommand cmd \<or> isDestructiveCommand cmd)"

definition nearby :: "int \<Rightarrow> activity list \<Rightarrow> nat \<Rightarrow> activity list" where
  "nearby windowMs ordered i =
     map (\<lambda>j. ordered ! j)
       (filter (\<lambda>j. j \<noteq> i \<and> j < length ordered \<and>
                  \<bar>timestamp (ordered ! j) - timestamp (ordered ! i)\<bar> \<le> windowMs \<and>
                  tool (ordered ! j) = ''exec'' \<and> dangerous (cmd_of (ordered ! j)))
          [i - 3 ..< i + 4])"

definition pattern2 :: "int \<Rightarrow> activity list \<Rightarrow> nat \<Rightarrow> sequence list" where
  "pattern2 windowMs ordered i =
     (let current = ordered ! i in
      if tool current = ''exec'' \<and> dangerous (cmd_of current) \<and> length (nearby windowMs ordered i) \<ge> 2
      then [\<lparr>seq_type = Multiple_Privileged_Operations,
             description = show_nat (length (nearby windowMs ordered i) + 1)
               @ '' dangerous commands executed in quick succession'',
             reason = ''Rapid execution of privileged/destructive commands may indicate automated attack or mistake'',
             seq_timestamp = timestamp current,
             actions =
               map (\<lambda>a. \<lparr>action_tool = tool a, action_timestamp = timestamp a,
                          summary = substring 100 (command_of a)\<rparr>)
                 (current # nearby windowMs ordered i)\<rparr>]
      else [])"

text \<open>Pattern 3: edit of a configuration file, then a gateway restart.\<close>

definition is_edit :: "'a activity_scheme \<Rightarrow> bool" where
  "is_edit a = (tool a = ''edit'' \<or> tool a = ''Edit'' \<or> tool a = ''write'' \<or> tool a = ''Write'')"

definition found3 :: "activity \<Rightarrow> activity \<Rightarrow> sequence option" where
  "found3 current nxt =
     (if tool nxt = ''gateway'' \<and>
         (get (arguments nxt) ''action'' = JStr ''restart'' \<or>
          get (arguments nxt) ''action'' = JStr ''config.apply'')
      then
        Some \<lparr>seq_type = Config_Change_Restart,
              description = ''Modified '' @ to_string (path_of current) @ '' then triggered gateway restart'',
              reason = ''Configuration change followed by restart - verify the changes were intentional'',
              seq_timestamp = timestamp current,
              actions =
                [\<lparr>action_tool = tool current, action_timestamp = timestamp current,
                  summary = path_of current\<rparr>,
                 \<lparr>action_tool = tool nxt, action_timestamp = timestamp nxt,
                  summary = JStr (''gateway '' @ to_string (get (arguments nxt) ''action''))\<rparr>]\<rparr>
      else None)"

definition pattern3 :: "int \<Rightarrow> activity \<Rightarrow> activity list \<Rightarrow> sequence list" where
  "pattern3 windowMs current rest =
     (if is_edit current \<and> isConfigFile (path_of current)
      then pushes (look_ahead windowMs (timestamp current) (found3 current) rest)
      else [])"

text \<open>Pattern 4: an outbound message with text that looks like a credential.\<close>

definition pattern4 :: "activity \<Rightarrow> sequence list" where
  "pattern4 current =
     (if tool current = ''message'' \<and> get (arguments current) ''action'' = JStr ''send'' \<and>
         containsSensitivePatterns (js_or (get (arguments current) ''message'') (JStr []))
      then [\<lparr>seq_type = Potential_Data_Leak_via_Message,
             description = ''Message sent containing sensitive patterns'',
             reason = ''Outbound message contains patterns that look like credentials or API keys'',
             seq_timestamp = timestamp current,
             actions =
               [\<lparr>action_tool = tool current, action_timestamp = timestamp current,
                 summary = JStr (''message to '' @ to_string (get (arguments current) ''target''))\<rparr>]\<rparr>]
      else [])"

text \<open>Pattern 5: read of an SSH key, then an SSH connection.\<close>

definition ssh_connection :: pattern where
  "ssh_connection = ci [WordB, Lits ''ssh'', sp1, Plus (Atom [WordChar]), Lits ''@'']"

definition found5 :: "activity \<Rightarrow> activity \<Rightarrow> sequence option" where
  "found5 current nxt =
     (if tool nxt = ''exec'' \<and> test ssh_connection (to_string (cmd_of nxt)) then
        Some \<lparr>seq_type = SSH_Key_Access_Connection,
              description = ''Read SSH key then initiated SSH connection'',
              reason = ''SSH key was accessed before establishing connection - verify this was authorized'',
              seq_timestamp = timestamp current,
              actions =
                [\<lparr>action_tool = tool current, action_timestamp = timestamp current,
                  summary = path_of current\<rparr>,
                 \<lparr>action_tool = tool nxt, action_timestamp = timestamp nxt,
                  summary = substring 80 (command_of nxt)\<rparr>]\<rparr>
      else None)"

definition pattern5 :: "int \<Rightarrow> activity \<Rightarrow> activity list \<Rightarrow> sequence list" where
  "pattern5 windowMs current rest =
     (if is_read current \<and> isSSHKeyPath (path_of current)
      then pushes (look_ahead windowMs (timestamp current) (found5 current) rest)
      else [])"

text \<open>Pattern 6: git clone, then a package install, within twice the window.\<close>

definition git_clone :: pattern where
  "git_clone = ci [WordB, Lits ''git'', sp1, Lits ''clone'', WordB]"

definition package_install :: pattern where
  "package_install =
     ci [WordB,
         alts [seqs [Lits ''npm'', sp1, Lits ''install''], seqs [Lits ''pip'', sp1, Lits ''install''],
               seqs [Lits ''yarn'', sp1, Lits ''install''], seqs [Lits ''pnpm'', sp1, Lits ''install'']],
         WordB]"

definition found6 :: "activity \<Rightarrow> activity \<Rightarrow> sequence option" where
  "found6 current nxt =
     (if tool nxt = ''exec'' \<and> test package_install (to_string (cmd_of nxt)) then
        Some \<lparr>seq_type = Clone_Package_Install,
              description = ''Cloned repository then ran package install'',
              reason = ''Installing dependencies from cloned repo - potential supply chain risk if repo is untrusted'',
              seq_timestamp = timestamp current,
              actions =
                [\<lparr>action_tool = tool current, action_timestamp = timestamp current,
                  summary = substring 80 (command_of current)\<rparr>,
                 \<lparr>action_tool = tool nxt, action_timestamp = timestamp nxt,
                  summary = substring 80 (command_of nxt)\<rparr>]\<rparr>
      else None)"

definition pattern6 :: "int \<Rightarrow> activity \<Rightarrow> activity list \<Rightarrow> sequence list" where
  "pattern6 windowMs current rest =
     (if tool current = ''exec'' \<and> test git_clone (to_string (cmd_of current))
      then pushes (look_ahead (windowMs * 2) (timestamp current) (found6 current) rest)
      else [])"

text \<open>Pattern 7: a download command, then an execute command.\<close>

definition found7 :: "activity \<Rightarrow> activity \<Rightarrow> sequence option" where
  "found7 current nxt =
     (if tool nxt = ''exec'' \<and> isExecuteCommand (cmd_of nxt) then
        Some \<lparr>seq_type = Download_Execute,
              description = ''Downloaded file then executed something'',
              reason = ''File was downloaded and executed shortly after - classic malware pattern'',
              seq_timestamp = timestamp current,
              actions =
                [\<lparr>action_tool = tool current, action_timestamp = timestamp current,
                  summary = substring 80 (command_of current)\<rparr>,
                 \<lparr>action_tool = tool nxt, action_timestamp = timestamp nxt,
                  summary = substring 80 (command_of nxt)\<rparr>]\<rparr>
      else None)"

definition pattern7 :: "int \<Rightarrow> activity \<Rightarrow> activity list \<Rightarrow> sequence list" where
  "pattern7 windowMs current rest =
     (if tool current = ''exec'' \<and> isDownloadCommand (cmd_of current)
      then pushes (look_ahead windowMs (timestamp current) (found7 current) rest)
      else [])"

text \<open>
  Pattern 8: a password-manager command, then anything outbound. \<^verbatim>\<open>getSummary\<close> is called
  on \<^verbatim>\<open>exec\<close>, \<^verbatim>\<open>web_fetch\<close> and \<^verbatim>\<open>message\<close> records only; its default case is not
  reached and reads as \<^verbatim>\<open>undefined\<close> here.
\<close>

definition getSummary :: "activity \<Rightarrow> jsval" where
  "getSummary a =
     (if tool a = ''exec'' then js_or (substring 60 (command_of a)) (JStr ''(command)'')
      else if tool a = ''web_fetch'' then js_or (get (arguments a) ''url'') (JStr ''(url)'')
      else if tool a = ''message'' then
        JStr (to_string (get (arguments a) ''action'') @ '' to ''
              @ to_string (js_or (get (arguments a) ''target'') (get (arguments a) ''channel'')))
      else JUndefined)"

definition outbound :: "activity \<Rightarrow> bool" where
  "outbound nxt =
     ((tool nxt = ''exec'' \<and> isNetworkCommand (command_of nxt)) \<or>
      tool nxt = ''web_fetch'' \<or>
      (tool nxt = ''message'' \<and> get (arguments nxt) ''action'' = JStr ''send''))"

definition found8 :: "activity \<Rightarrow> activity \<Rightarrow> sequence option" where
  "found8 current nxt =
     (if outbound nxt then
        Some \<lparr>seq_type = Password_Manager_Outbound,
              description = ''Accessed password manager then sent data externally'',
              reason = ''Credentials were accessed from password manager before outbound activity'',
              seq_timestamp = timestamp current,
              actions =
                [\<lparr>action_tool = tool current, action_timestamp = timestamp current,
                  summary = substring 60 (command_of current)\<rparr>,
                 \<lparr>action_tool = tool nxt, action_timestamp = timestamp nxt,
                  summary = getSummary nxt\<rparr>]\<rparr>
      else None)"

definition pattern8 :: "int \<Rightarrow> activity \<Rightarrow> activity list \<Rightarrow> sequence list" where
  "pattern8 windowMs current rest =
     (if tool current = ''exec'' \<and> isPasswordManagerCommand (cmd_of current)
      then pushes (look_ahead windowMs (timestamp current) (found8 current) rest)
      else [])"

text \<open>
  Pattern 9: at least ten reads among the next twenty records within one minute, unless a
  bulk enumeration was already pushed less than a minute away.
\<close>

definition readsInWindow :: "activity list \<Rightarrow> nat \<Rightarrow> activity list" where
  "readsInWindow ordered i =
     filter is_read
       (takeWhile (\<lambda>other. \<not> timestamp other - timestamp (ordered ! i) > 60000)
          (take 20 (drop i ordered)))"

definition alreadyFlagged :: "sequence list \<Rightarrow> activity \<Rightarrow> bool" where
  "alreadyFlagged sequences current =
     list_ex (\<lambda>s. seq_type s = Bulk_File_Enumeration \<and>
                  \<bar>seq_timestamp s - timestamp current\<bar> < 60000)
       sequences"

definition pattern9 :: "activity list \<Rightarrow> nat \<Rightarrow> sequence list \<Rightarrow> sequence list" where
  "pattern9 ordered i sequences =
     (let current = ordered ! i in
      if is_read current \<and> length (readsInWindow ordered i) \<ge> 10 \<and>
         \<not> alreadyFlagged sequences current
      then [\<lparr>seq_type = Bulk_File_Enumeration,
             description = show_nat (length (readsInWindow ordered i)) @ '' files read in under 1 minute'',
             reason = ''Rapid file access may indicate reconnaissance or data harvesting'',
             seq_timestamp = timestamp current,
             actions =
               map (\<lambda>a. \<lparr>action_tool = tool a, action_timestamp = timestamp a,
                          summary = path_of a\<rparr>)
                 (take 5 (readsInWindow ordered i))\<rparr>]
      else [])"

text \<open>Patterns 10 to 13: single records.\<close>

definition single :: "seq_type \<Rightarrow> string \<Rightarrow> string \<Rightarrow> activity \<Rightarrow> jsval \<Rightarrow> sequence" where
  "single ty descr why current summ =
     \<lparr>seq_type = ty, description = descr, reason = why, seq_timestamp = timestamp current,
      actions = [\<lparr>action_tool = tool current, action_timestamp = timestamp current,
                  summary = summ\<rparr>]\<rparr>"

definition pattern10 :: "activity \<Rightarrow> sequence list" where
  "pattern10 current =
     (if tool current = ''exec'' \<and>
         (test (ci [WordB, Lits ''crontab'', WordB]) (to_string (cmd_of current)) \<or>
          test (ci [Lits ''launchctl'', sp1, Lits ''load'']) (to_string (cmd_of current)) \<or>
          test (ci [Lits ''systemctl'', sp1, one_of [''enable'', ''start'']]) (to_string (cmd_of current)))
      then [single Persistence_Mechanism ''Created scheduled task or service''
              ''Agent created a persistence mechanism - verify this was intentional''
              current (substring 100 (cmd_of current))]
      else [])"

definition pattern11 :: "activity \<Rightarrow> sequence list" where
  "pattern11 current =
     (if (tool current = ''write'' \<or> tool current = ''Write'') \<and> isPersistencePath (path_of current)
      then [single Persistence_via_File ''Wrote to startup/scheduled task location''
              ''File written to persistence location - will run automatically''
              current (path_of current)]
      else [])"

definition pattern12 :: "activity \<Rightarrow> sequence list" where
  "pattern12 current =
     (if tool current = ''exec'' \<and>
         test (ci [WordB,
                   alts [Lits ''imagesnap'', Lits ''screencapture'',
                         seqs [Lits ''ffmpeg'', any0, Lits ''avfoundation''], Lits ''afrecord''],
                   WordB])
           (to_string (cmd_of current))
      then [single Media_Capture ''Captured camera, screen, or audio''
              ''Agent accessed camera/microphone/screen - verify this was requested''
              current (substring 100 (cmd_of current))]
      else [])"

definition pattern13 :: "activity \<Rightarrow> sequence list" where
  "pattern13 current =
     (if tool current = ''exec'' \<and>
         test (ci [WordB, Lits ''security'', sp1,
                   one_of [''find-generic-password'', ''find-internet-password'', ''dump-keychain''],
                   WordB])
           (to_string (cmd_of current))
      then [single Keychain_Access ''Extracted credentials from system keychain''
              ''Agent accessed macOS Keychain - high sensitivity operation''
              current (substring 100 (cmd_of current))]
      else [])"

text \<open>The body of the main loop at index \<open>i\<close>, on the sequences pushed so far.\<close>

definition at_index :: "int \<Rightarrow> activity list \<Rightarrow> nat \<Rightarrow> sequence list \<Rightarrow> sequence list" where
  "at_index windowMs ordered i sequences =
     (let current = ordered ! i;
          rest = drop (Suc i) ordered;
          s8 = sequences
               @ pattern1 windowMs current rest
               @ pattern2 windowMs ordered i
               @ pattern3 windowMs current rest
               @ pattern4 current
               @ pattern5 windowMs current rest
               @ pattern6 windowMs current rest
               @ pattern7 windowMs current rest
               @ pattern8 windowMs current rest
      in s8 @ pattern9 ordered i s8
            @ pattern10 current @ pattern11 current @ pattern12 current @ pattern13 current)"

definition scan :: "int \<Rightarrow> activity list \<Rightarrow> sequence list" where
  "scan windowMs ordered = foldl (\<lambda>sequences i. at_index windowMs ordered i sequences) [] [0 ..< length ordered]"

text \<open>\<^verbatim>\<open>arr.findIndex(p)\<close>, with \<open>None\<close> for -1.\<close>

fun findIndex :: "('a \<Rightarrow> bool) \<Rightarrow> 'a list \<Rightarrow> nat option" where
  "findIndex p [] = None"
| "findIndex p (x # xs) = (if p x then Some 0 else map_option Suc (findIndex p xs))"

text \<open>
  The deduplication: a sequence stays when it is the first of its type and timestamp.
  (The route compares the timestamp values as they are in the records; here two records
  of the same instant have the same timestamp.)
\<close>

definition unique :: "sequence list \<Rightarrow> sequence list" where
  "unique sequences =
     map snd
       (filter (\<lambda>(idx, sq). findIndex (\<lambda>s. seq_type s = seq_type sq \<and>
                                           seq_timestamp s = seq_timestamp sq) sequences = Some idx)
          (enumerate 0 sequences))"

text \<open>
  The route: sort by timestamp (the sort is stable), scan, deduplicate, and answer with
  the first twenty sequences and the number of all.
\<close>

definition detect :: "int \<Rightarrow> activity list \<Rightarrow> sequence list \<times> nat" where
  "detect windowMs activity =
     (let ordered = sort_key timestamp activity;
          sequences = scan windowMs ordered;
          uniq = unique sequences
      in (take 20 uniq, length uniq))"

section \<open>Properties of the sequence detector\<close>


lemma look_ahead_iff:
  "sorted (map timestamp rest) \<Longrightarrow>
   look_ahead window t0 found rest \<noteq> None \<longleftrightarrow>
     (\<exists>n \<in> set rest. timestamp n - t0 \<le> window \<and> found n \<noteq> None)"
proof (induction rest)
  case Nil
  then show ?case by simp
next
  case (Cons nxt rest)
  show ?case
  proof (cases "timestamp nxt - t0 > window")
    case True
    from Cons.prems have "\<forall>n \<in> set rest. timestamp nxt \<le> timestamp n"
      by auto
    with True have "\<forall>n \<in> set (nxt # rest). \<not> timestamp n - t0 \<le> window"
      by fastforce
    with True show ?thesis by auto
  next
    case False
    from Cons.prems have "sorted (map timestamp rest)"
      by simp
    with Cons.IH False show ?thesis
      by (cases "found nxt") auto
  qed
qed

lemma pushes_nonempty: "pushes r \<noteq> [] \<longleftrightarrow> r \<noteq> None"
  by (cases r) (simp_all add: pushes_def)

lemma guarded_look_ahead:
  assumes "sorted (map timestamp rest)" and "\<And>n. found n \<noteq> None \<longleftrightarrow> C n"
  shows "(if G then pushes (look_ahead window t0 found rest) else []) \<noteq> [] \<longleftrightarrow>
           G \<and> (\<exists>n \<in> set rest. timestamp n - t0 \<le> window \<and> C n)"
proof (cases G)
  case True
  have "pushes (look_ahead window t0 found rest) \<noteq> [] \<longleftrightarrow>
      look_ahead window t0 found rest \<noteq> None"
    by (rule pushes_nonempty)
  also have "\<dots> \<longleftrightarrow> (\<exists>n \<in> set rest. timestamp n - t0 \<le> window \<and> found n \<noteq> None)"
    by (rule look_ahead_iff [OF assms(1)])
  also have "\<dots> \<longleftrightarrow> (\<exists>n \<in> set rest. timestamp n - t0 \<le> window \<and> C n)"
    using assms(2) by blast
  finally show ?thesis using True by simp
next
  case False
  then show ?thesis by simp
qed

lemma found1_iff:
  "found1 current n \<noteq> None \<longleftrightarrow>
     (tool n = ''exec'' \<and> isNetworkCommand (command_of n)) \<or> tool n = ''web_fetch''"
  by (simp add: found1_def)

lemma found3_iff:
  "found3 current n \<noteq> None \<longleftrightarrow>
     tool n = ''gateway'' \<and>
     (get (arguments n) ''action'' = JStr ''restart'' \<or>
      get (arguments n) ''action'' = JStr ''config.apply'')"
  by (simp add: found3_def)

lemma found5_iff:
  "found5 current n \<noteq> None \<longleftrightarrow>
     tool n = ''exec'' \<and> test ssh_connection (to_string (cmd_of n))"
  by (simp add: found5_def)

lemma found6_iff:
  "found6 current n \<noteq> None \<longleftrightarrow>
     tool n = ''exec'' \<and> test package_install (to_string (cmd_of n))"
  by (simp add: found6_def)

lemma found7_iff:
  "found7 current n \<noteq> None \<longleftrightarrow> tool n = ''exec'' \<and> isExecuteCommand (cmd_of n)"
  by (simp add: found7_def)

lemma found8_iff: "found8 current n \<noteq> None \<longleftrightarrow> outbound n"
  by (simp add: found8_def)

text \<open>The look-ahead loops of the route run on a time-ordered rest of the list.\<close>

lemma route_rest_sorted:
  "sorted (map timestamp (drop (Suc i) (sort_key timestamp activity)))"
  by (simp add: sorted_wrt_drop flip: drop_map)

text \<open>
  Claim C6, as amended. In a time-ordered list, each look-ahead pattern matches from a
  trigger record exactly when a correlated record follows whose timestamp is at most the
  pattern's window after the trigger's: the bound is inclusive. The window is
  \<^verbatim>\<open>windowMs\<close> for the credential-access, config-change, SSH-key, download and
  password-manager patterns, and twice \<^verbatim>\<open>windowMs\<close> for clone then package install.
\<close>

theorem window_is_inclusive_bound:
  assumes "sorted (map timestamp rest)"
  shows
    "(pattern1 w current rest \<noteq> [] \<longleftrightarrow>
        is_read current \<and> isSensitivePath (path_of current) \<and>
        (\<exists>n \<in> set rest. timestamp n - timestamp current \<le> w \<and>
           ((tool n = ''exec'' \<and> isNetworkCommand (command_of n)) \<or> tool n = ''web_fetch''))) \<and>
     (pattern3 w current rest \<noteq> [] \<longleftrightarrow>
        is_edit current \<and> isConfigFile (path_of current) \<and>
        (\<exists>n \<in> set rest. timestamp n - timestamp current \<le> w \<and>
           tool n = ''gateway'' \<and>
           (get (arguments n) ''action'' = JStr ''restart'' \<or>
            get (arguments n) ''action'' = JStr ''config.apply''))) \<and>
     (pattern5 w current rest \<noteq> [] \<longleftrightarrow>
        is_read current \<and> isSSHKeyPath (path_of current) \<and>
        (\<exists>n \<in> set rest. timestamp n - timestamp current \<le> w \<and>
           tool n = ''exec'' \<and> test ssh_connection (to_string (cmd_of n)))) \<and>
     (pattern7 w current rest \<noteq> [] \<longleftrightarrow>
        tool current = ''exec'' \<and> isDownloadCommand (cmd_of current) \<and>
        (\<exists>n \<in> set rest. timestamp n - timestamp current \<le> w \<and>
           tool n = ''exec'' \<and> isExecuteCommand (cmd_of n))) \<and>
     (pattern8 w current rest \<noteq> [] \<longleftrightarrow>
        tool current = ''exec'' \<and> isPasswordManagerCommand (cmd_of current) \<and>
        (\<exists>n \<in> set rest. timestamp n - timestamp current \<le> w \<and> outbound n)) \<and>
     (pattern6 w current rest \<noteq> [] \<longleftrightarrow>
        tool current = ''exec'' \<and> test git_clone (to_string (cmd_of current)) \<and>
        (\<exists>n \<in> set rest. timestamp n - timestamp current \<le> w * 2 \<and>
           tool n = ''exec'' \<and> test package_install (to_string (cmd_of n))))"
proof (intro conjI)
  show "pattern1 w current rest \<noteq> [] \<longleftrightarrow>
        is_read current \<and> isSensitivePath (path_of current) \<and>
        (\<exists>n \<in> set rest. timestamp n - timestamp current \<le> w \<and>
           ((tool n = ''exec'' \<and> isNetworkCommand (command_of n)) \<or> tool n = ''web_fetch''))"
    unfolding pattern1_def
    by (rule trans [OF guarded_look_ahead [OF assms found1_iff]]) blast
  show "pattern3 w current rest \<noteq> [] \<longleftrightarrow>
        is_edit current \<and> isConfigFile (path_of current) \<and>
        (\<exists>n \<in> set rest. timestamp n - timestamp current \<le> w \<and>
           tool n = ''gateway'' \<and>
           (get (arguments n) ''action'' = JStr ''restart'' \<or>
            get (arguments n) ''action'' = JStr ''config.apply''))"
    unfolding pattern3_def
    by (rule trans [OF guarded_look_ahead [OF assms found3_iff]]) blast
  show "pattern5 w current rest \<noteq> [] \<longleftrightarrow>
        is_read current \<and> isSSHKeyPath (path_of current) \<and>
        (\<exists>n \<in> set rest. timestamp n - timestamp current \<le> w \<and>
           tool n = ''exec'' \<and> test ssh_connection (to_string (cmd_of n)))"
    unfolding pattern5_def
    by (rule trans [OF guarded_look_ahead [OF assms found5_iff]]) blast
  show "pattern7 w current rest \<noteq> [] \<longleftrightarrow>
        tool current = ''exec'' \<and> isDownloadCommand (cmd_of current) \<and>
        (\<exists>n \<in> set rest. timestamp n - timestamp current \<le> w \<and>
           tool n = ''exec'' \<and> isExecuteCommand (cmd_of n))"
    unfolding pattern7_def
    by (rule trans [OF guarded_look_ahead [OF assms found7_iff]]) blast
  show "pattern8 w current rest \<noteq> [] \<longleftrightarrow>
        tool current = ''exec'' \<and> isPasswordManagerCommand (cmd_of current) \<and>
        (\<exists>n \<in> set rest. timestamp n - timestamp current \<le> w \<and> outbound n)"
    unfolding pattern8_def
    by (rule trans [OF guarded_look_ahead [OF assms found8_iff]]) blast
  show "pattern6 w current rest \<noteq> [] \<longleftrightarrow>
        tool current = ''exec'' \<and> test git_clone (to_string (cmd_of current)) \<and>
        (\<exists>n \<in> set rest. timestamp n - timestamp current \<le> w * 2 \<and>
           tool n = ''exec'' \<and> test package_install (to_string (cmd_of n)))"
    unfolding pattern6_def
    by (rule trans [OF guarded_look_ahead [OF assms found6_iff]]) blast
qed

subsection \<open>Sample records\<close>

definition key_read :: activity where
  "key_read = \<lparr>tool = ''read'', arguments = [(''path'', JStr ''~/.ssh/id_rsa'')], timestamp = 1000\<rparr>"

definition ssh_at :: "int \<Rightarrow> activity" where
  "ssh_at t = \<lparr>tool = ''exec'', arguments = [(''command'', JStr ''ssh user@host'')], timestamp = t\<rparr>"

definition clone_at :: "int \<Rightarrow> activity" where
  "clone_at t =
     \<lparr>tool = ''exec'', arguments = [(''command'', JStr ''git clone https://example.com/r.git'')],
      timestamp = t\<rparr>"

definition install_at :: "int \<Rightarrow> activity" where
  "install_at t = \<lparr>tool = ''exec'', arguments = [(''command'', JStr ''npm install'')], timestamp = t\<rparr>"

theorem window_is_inclusive_bound_witness:
  "sorted (map timestamp [ssh_at 301000]) \<and> sorted (map timestamp [ssh_at 301001]) \<and>
   pattern5 300000 key_read [ssh_at 301000] \<noteq> [] \<and>
   pattern5 300000 key_read [ssh_at 301001] = [] \<and>
   pattern1 300000 key_read [ssh_at 301000] \<noteq> [] \<and>
   pattern1 300000 key_read [ssh_at 301001] = []"
proof -
  have s: "sorted (map timestamp [ssh_at t])" for t
    by simp
  have trig: "is_read key_read" "isSSHKeyPath (path_of key_read)" "isSensitivePath (path_of key_read)"
    by code_simp+
  have corr: "tool (ssh_at t) = ''exec''" "test ssh_connection (to_string (cmd_of (ssh_at t)))"
      "isNetworkCommand (command_of (ssh_at t))" for t
    by (simp add: ssh_at_def, (simp add: ssh_at_def cmd_of_def command_of_def get_def js_or_def, code_simp),
        (simp add: ssh_at_def cmd_of_def command_of_def get_def js_or_def, code_simp))
  have ts: "timestamp (ssh_at t) = t" "timestamp key_read = 1000" for t
    by (simp_all add: ssh_at_def key_read_def)
  from window_is_inclusive_bound [OF s, of 300000 key_read 301000] trig corr ts
  have a: "pattern5 300000 key_read [ssh_at 301000] \<noteq> []"
    "pattern1 300000 key_read [ssh_at 301000] \<noteq> []"
    by simp_all
  from window_is_inclusive_bound [OF s, of 300000 key_read 301001] trig corr ts
  have b: "pattern5 300000 key_read [ssh_at 301001] = []"
    "pattern1 300000 key_read [ssh_at 301001] = []"
    by simp_all
  from a b s show ?thesis by blast
qed

text \<open>
  Claim C6 as stated fails for clone then package install: with a window of 300000 ms, an
  install that follows the clone by 300001 ms is matched.
\<close>

theorem clone_install_beyond_window:
  "timestamp (install_at 300001) - timestamp (clone_at 0) = 300000 + 1 \<and>
   detect 300000 [clone_at 0, install_at 300001] =
     ([\<lparr>seq_type = Clone_Package_Install,
        description = ''Cloned repository then ran package install'',
        reason = ''Installing dependencies from cloned repo - potential supply chain risk if repo is untrusted'',
        seq_timestamp = 0,
        actions =
          [\<lparr>action_tool = ''exec'', action_timestamp = 0,
            summary = JStr ''git clone https://example.com/r.git''\<rparr>,
           \<lparr>action_tool = ''exec'', action_timestamp = 300001,
            summary = JStr ''npm install''\<rparr>]\<rparr>], 1)"
  by code_simp

















end
